theory Spec2Isabelle
  imports Complex_Main "HOL-Library.Word"
begin

section \<open>JavaScript strings\<close>

text \<open>
  A JavaScript string is a sequence of UTF-16 code units and \<open>length\<close> counts code
  units, so a string is a list of 16-bit words. \<open>lit\<close> embeds an ASCII literal of the
  source; characters outside ASCII are written as their code units.
\<close>

type_synonym jschar = "16 word"
type_synonym jsstring = "jschar list"

definition lit :: "string \<Rightarrow> jsstring" where
  "lit s = map of_char s"

text \<open>\<open>s.startsWith(n)\<close> and \<open>s.includes(n)\<close>.\<close>

fun startsWith :: "jsstring \<Rightarrow> jsstring \<Rightarrow> bool" where
  "startsWith s [] = True"
| "startsWith [] (n # ns) = False"
| "startsWith (c # cs) (n # ns) = (c = n \<and> startsWith cs ns)"

fun includesStr :: "jsstring \<Rightarrow> jsstring \<Rightarrow> bool" where
  "includesStr [] n = (n = [])"
| "includesStr (c # cs) n = (startsWith (c # cs) n \<or> includesStr cs n)"

text \<open>\<open>s.split(sep)\<close> for a one-character separator: never the empty array.\<close>

fun splitOn :: "jschar \<Rightarrow> jsstring \<Rightarrow> jsstring list" where
  "splitOn sep [] = [[]]"
| "splitOn sep (c # cs) =
     (if c = sep then [] # splitOn sep cs
      else (case splitOn sep cs of
              [] \<Rightarrow> [[c]]
            | p # ps \<Rightarrow> (c # p) # ps))"

text \<open>\<open>xs.join(sep)\<close> on an array of strings.\<close>

fun joinStr :: "jsstring \<Rightarrow> jsstring list \<Rightarrow> jsstring" where
  "joinStr sep [] = []"
| "joinStr sep [x] = x"
| "joinStr sep (x # y # ys) = x @ sep @ joinStr sep (y # ys)"

text \<open>\<open>xs.slice(-n)\<close>: the last \<open>n\<close> elements (all of them when there are fewer).\<close>

definition sliceLast :: "nat \<Rightarrow> 'a list \<Rightarrow> 'a list" where
  "sliceLast n xs = drop (length xs - n) xs"

text \<open>\<open>s.split(sep).pop()\<close>: the segment after the last separator.\<close>

definition popSegment :: "jschar \<Rightarrow> jsstring \<Rightarrow> jsstring" where
  "popSegment sep s = (case rev (splitOn sep s) of [] \<Rightarrow> [] | p # ps \<Rightarrow> p)"

text \<open>
  White space and line terminators of ECMAScript: what \<open>trim\<close> strips and what the
  regular-expression class \<open>\s\<close> matches.
\<close>

definition isLineTerminator :: "jschar \<Rightarrow> bool" where
  "isLineTerminator c = (c = 0x000A \<or> c = 0x000D \<or> c = 0x2028 \<or> c = 0x2029)"

definition isWhiteSpace :: "jschar \<Rightarrow> bool" where
  "isWhiteSpace c =
     (c = 0x0009 \<or> c = 0x000B \<or> c = 0x000C \<or> c = 0x0020 \<or> c = 0x00A0 \<or> c = 0xFEFF
      \<or> c = 0x1680 \<or> (0x2000 \<le> c \<and> c \<le> 0x200A) \<or> c = 0x202F \<or> c = 0x205F
      \<or> c = 0x3000 \<or> isLineTerminator c)"

definition trimStr :: "jsstring \<Rightarrow> jsstring" where
  "trimStr s = rev (dropWhile isWhiteSpace (rev (dropWhile isWhiteSpace s)))"

text \<open>The decimal rendering of a non-negative integer, as a template literal prints it.\<close>

fun showNat :: "nat \<Rightarrow> jsstring" where
  "showNat n =
     (if n < 10 then [0x30 + of_nat n]
      else showNat (n div 10) @ [0x30 + of_nat (n mod 10)])"

declare showNat.simps [simp del]

section \<open>Values, errors and the platform\<close>

text \<open>
  The values \<open>JSON.parse\<close> produces. A property the object does not have is
  \<open>undefined\<close>, modelled by \<open>None\<close>.
\<close>

datatype json =
    JNull
  | JBool bool
  | JNum real
  | JStr jsstring
  | JArr "json list"
  | JObj "(jsstring \<times> json) list"

datatype error = TypeError | SyntaxError | StoreFailure

definition bindE :: "error + 'a \<Rightarrow> ('a \<Rightarrow> error + 'b) \<Rightarrow> error + 'b" where
  "bindE m f = (case m of Inl e \<Rightarrow> Inl e | Inr x \<Rightarrow> f x)"

text \<open>
  What a regular expression with the \<open>g\<close> flag yields when \<open>exec\<close> is called until it
  returns \<open>null\<close>: one entry per match, holding \<open>match[0]\<close> and the capture groups
  \<open>match[1]\<close>, \<open>match[2]\<close>, ... (\<open>None\<close> for a group that did not take part).
\<close>

record rmatch =
  whole :: jsstring
  groups :: "jsstring option list"

definition grp :: "rmatch \<Rightarrow> nat \<Rightarrow> jsstring option" where
  "grp m i = (if 1 \<le> i \<and> i \<le> length (groups m) then groups m ! (i - 1) else None)"

text \<open>
  The regular-expression literals of the source, all with the \<open>g\<close> flag:
  \<^item> \<open>ImportFrom\<close>: \<^verbatim>\<open>import\s+(?:{\s*([^}]+)\s*}|(\w+))\s+from\s+['"]([^'"]+)['"]\<close>
  \<^item> \<open>FromImport\<close>: \<^verbatim>\<open>from\s+['"]([^'"]+)['"]\s+import\<close>
  \<^item> \<open>RequireCall\<close>: \<^verbatim>\<open>require\s*\(['"]([^'"]+)['"]\)\<close>
  \<^item> \<open>UsePath\<close>: \<^verbatim>\<open>use\s+(\w+(?:::\w+)*)\<close>
  \<^item> \<open>ExportDecl\<close>: \<^verbatim>\<open>export\s+(?:default\s+)?(?:function|class|const|let|var)\s+(\w+)\<close>
  \<^item> \<open>ExportList\<close>: \<^verbatim>\<open>export\s*{\s*([^}]+)\s*}\<close>
  \<^item> \<open>PubItem\<close>: \<^verbatim>\<open>pub\s+(?:fn|struct|enum|trait|mod)\s+(\w+)\<close>
  \<^item> \<open>FunctionDecl\<close>: \<^verbatim>\<open>(?:async\s+)?function\s+(\w+)\<close>
  \<^item> \<open>ArrowProperty\<close>: \<^verbatim>\<open>(\w+)\s*:\s*(?:async\s+)?\([^)]*\)\s*=>\<close>
  \<^item> \<open>ArrowBinding\<close>: \<^verbatim>\<open>(?:const|let)\s+(\w+)\s*=\s*(?:async\s+)?\([^)]*\)\s*=>\<close>
  \<^item> \<open>FnItem\<close>: \<^verbatim>\<open>fn\s+(\w+)\<close>
  \<^item> \<open>DefItem\<close>: \<^verbatim>\<open>def\s+(\w+)\<close>
  \<^item> \<open>ClassDecl\<close>: \<^verbatim>\<open>class\s+(\w+)\<close>
  \<^item> \<open>StructDecl\<close>: \<^verbatim>\<open>struct\s+(\w+)\<close>
  \<^item> \<open>InterfaceDecl\<close>: \<^verbatim>\<open>interface\s+(\w+)\<close>
  \<^item> \<open>TypeAlias\<close>: \<^verbatim>\<open>type\s+(\w+)\s*=\<close>
  \<^item> \<open>ToolCallPath\<close>: \<^verbatim>\<open>(?:Read|Edit|Write)[^"]*"([^"]+)"\<close>
  \<^item> \<open>FilePathKey\<close>: \<^verbatim>\<open>file_path["\s:]+([^\s"]+)\<close>

  What they match is the platform's business (\<open>regexExecAll\<close> below); none of them can
  match the empty string, so each \<open>exec\<close> loop ends.
\<close>

datatype regex =
    ImportFrom | FromImport | RequireCall | UsePath
  | ExportDecl | ExportList | PubItem
  | FunctionDecl | ArrowProperty | ArrowBinding | FnItem | DefItem
  | ClassDecl | StructDecl | InterfaceDecl | TypeAlias
  | ToolCallPath | FilePathKey

text \<open>
  The functions of the JavaScript runtime that the code calls and that are not part of
  the repository. Every theorem below holds for any such functions.
\<close>

record platform =
  toLowerCase :: "jsstring \<Rightarrow> jsstring"
  regexExecAll :: "regex \<Rightarrow> jsstring \<Rightarrow> rmatch list"
  jsonParse :: "jsstring \<Rightarrow> json option"
  jsonStringify :: "json \<Rightarrow> jsstring"
  toStringJS :: "json \<Rightarrow> jsstring"

text \<open>Truthiness of a value (\<open>undefined\<close> is falsy).\<close>

fun truthy :: "json \<Rightarrow> bool" where
  "truthy JNull = False"
| "truthy (JBool b) = b"
| "truthy (JNum x) = (x \<noteq> 0)"
| "truthy (JStr s) = (s \<noteq> [])"
| "truthy (JArr xs) = True"
| "truthy (JObj kvs) = True"

text \<open>
  \<open>x?.key\<close> for the keys the code reads (\<open>file_path\<close>, \<open>command\<close>, \<open>pattern\<close>, ...):
  only an object can have such a property.
\<close>

fun getProp :: "json option \<Rightarrow> jsstring \<Rightarrow> json option" where
  "getProp (Some (JObj kvs)) k = map_of kvs k"
| "getProp v k = None"

section \<open>Helpers: token estimate and classifier\<close>

text \<open>\<open>Math.ceil(text.length / 4)\<close>\<close>

definition estimateTokens :: "jsstring \<Rightarrow> nat" where
  "estimateTokens text = (length text + 3) div 4"

datatype ObservationType =
    Discovery | Decision | Problem | Solution | Pattern
  | Warning | Success | Refactor | Bugfix | Feature

fun typeName :: "ObservationType \<Rightarrow> jsstring" where
  "typeName Discovery = lit ''discovery''"
| "typeName Decision = lit ''decision''"
| "typeName Problem = lit ''problem''"
| "typeName Solution = lit ''solution''"
| "typeName Pattern = lit ''pattern''"
| "typeName Warning = lit ''warning''"
| "typeName Success = lit ''success''"
| "typeName Refactor = lit ''refactor''"
| "typeName Bugfix = lit ''bugfix''"
| "typeName Feature = lit ''feature''"

definition observationTypes :: "jsstring list" where
  "observationTypes =
     [lit ''discovery'', lit ''decision'', lit ''problem'', lit ''solution'',
      lit ''pattern'', lit ''warning'', lit ''success'', lit ''refactor'',
      lit ''bugfix'', lit ''feature'']"

definition classifyObservationType :: "platform \<Rightarrow> jsstring \<Rightarrow> jsstring \<Rightarrow> ObservationType" where
  "classifyObservationType P toolName output =
     (let lowerOutput = toLowerCase P output in
      if includesStr lowerOutput (lit ''error'') \<or> includesStr lowerOutput (lit ''failed'')
         \<or> includesStr lowerOutput (lit ''exception'')
      then Problem
      else if includesStr lowerOutput (lit ''success'') \<or> includesStr lowerOutput (lit ''passed'')
         \<or> includesStr lowerOutput (lit ''completed'')
      then Success
      else if includesStr lowerOutput (lit ''warning'') \<or> includesStr lowerOutput (lit ''deprecated'')
      then Warning
      else if toolName = lit ''Read'' \<or> toolName = lit ''Glob'' \<or> toolName = lit ''Grep''
      then Discovery
      else if toolName = lit ''Edit''
      then (if includesStr lowerOutput (lit ''fix'') \<or> includesStr lowerOutput (lit ''bug'')
            then Bugfix else Refactor)
      else if toolName = lit ''Write''
      then Feature
      else Discovery)"

text \<open>
  A platform for concrete runs on ASCII text: \<open>toLowerCase\<close> maps \<open>A\<close>..\<open>Z\<close> to
  \<open>a\<close>..\<open>z\<close>, as the runtime does on ASCII input; no regular expression matches and no
  text parses as JSON. It is used at inputs where the last four functions are not called.
\<close>

definition asciiLower :: "jschar \<Rightarrow> jschar" where
  "asciiLower c = (if 0x41 \<le> c \<and> c \<le> 0x5A then c + 0x20 else c)"

definition asciiPlatform :: platform where
  "asciiPlatform =
     \<lparr> toLowerCase = map asciiLower,
       regexExecAll = (\<lambda>r s. []),
       jsonParse = (\<lambda>s. None),
       jsonStringify = (\<lambda>v. []),
       toStringJS = (\<lambda>v. []) \<rparr>"

section \<open>Compression of tool output\<close>

subsection \<open>Extractors\<close>

text \<open>\<open>a || d\<close> where \<open>a\<close> is a string or \<open>undefined\<close>: the empty string is falsy.\<close>

definition orStr :: "jsstring option \<Rightarrow> jsstring \<Rightarrow> jsstring" where
  "orStr v d = (case v of None \<Rightarrow> d | Some s \<Rightarrow> if s \<noteq> [] then s else d)"

text \<open>The \<open>while ((match = pattern.exec(code)) !== null)\<close> loop, pushing onto the array.\<close>

fun pushMatches :: "(rmatch \<Rightarrow> 'a list) \<Rightarrow> rmatch list \<Rightarrow> 'a list \<Rightarrow> 'a list" where
  "pushMatches pick [] acc = acc"
| "pushMatches pick (m # ms) acc = pushMatches pick ms (acc @ pick m)"

text \<open>\<open>patterns.forEach\<close> around that loop.\<close>

fun scanPatterns ::
  "platform \<Rightarrow> (rmatch \<Rightarrow> 'a list) \<Rightarrow> regex list \<Rightarrow> jsstring \<Rightarrow> 'a list \<Rightarrow> 'a list" where
  "scanPatterns P pick [] code acc = acc"
| "scanPatterns P pick (r # rs) code acc =
     scanPatterns P pick rs code (pushMatches pick (regexExecAll P r code) acc)"

text \<open>
  For the statements about the extractors: every value the two loops push, in the order
  they push it. This is the list the extractors are compared with, not part of the source.
\<close>

definition matchesInOrder ::
  "platform \<Rightarrow> (rmatch \<Rightarrow> 'a list) \<Rightarrow> regex list \<Rightarrow> jsstring \<Rightarrow> 'a list" where
  "matchesInOrder P pick rs code =
     concat (map (\<lambda>r. concat (map pick (regexExecAll P r code))) rs)"

text \<open>
  \<open>[...new Set(xs)]\<close>: a set keeps the first insertion of each value and iterates in
  insertion order.
\<close>

fun setAddAll :: "'a list \<Rightarrow> 'a list \<Rightarrow> 'a list" where
  "setAddAll [] seen = seen"
| "setAddAll (x # xs) seen = setAddAll xs (if x \<in> set seen then seen else seen @ [x])"

definition newSet :: "'a list \<Rightarrow> 'a list" where
  "newSet xs = setAddAll xs []"

definition pickImport :: "rmatch \<Rightarrow> jsstring list" where
  "pickImport m = [orStr (grp m 3) (orStr (grp m 1) (orStr (grp m 2) (whole m)))]"

definition extractImports :: "platform \<Rightarrow> jsstring \<Rightarrow> jsstring list" where
  "extractImports P code =
     newSet (scanPatterns P pickImport [ImportFrom, FromImport, RequireCall, UsePath] code [])"

definition pickExport :: "rmatch \<Rightarrow> jsstring list" where
  "pickExport m = filter (\<lambda>s. s \<noteq> []) (map trimStr (splitOn 0x2C (orStr (grp m 1) [])))"

definition extractExports :: "platform \<Rightarrow> jsstring \<Rightarrow> jsstring list" where
  "extractExports P code =
     newSet (scanPatterns P pickExport [ExportDecl, ExportList, PubItem] code [])"

text \<open>\<open>push(match[1])\<close>: the first capture group, \<open>undefined\<close> if it did not take part.\<close>

definition pickGroup1 :: "rmatch \<Rightarrow> jsstring option list" where
  "pickGroup1 m = [grp m 1]"

definition extractFunctionSignatures :: "platform \<Rightarrow> jsstring \<Rightarrow> jsstring option list" where
  "extractFunctionSignatures P code =
     newSet (scanPatterns P pickGroup1
               [FunctionDecl, ArrowProperty, ArrowBinding, FnItem, DefItem] code [])"

definition extractClassNames :: "platform \<Rightarrow> jsstring \<Rightarrow> jsstring option list" where
  "extractClassNames P code =
     newSet (scanPatterns P pickGroup1
               [ClassDecl, StructDecl, InterfaceDecl, TypeAlias] code [])"

definition hasMarker :: "jsstring \<Rightarrow> bool" where
  "hasMarker line =
     (includesStr line (lit ''TODO'') \<or> includesStr line (lit ''FIXME'')
      \<or> includesStr line (lit ''HACK'') \<or> includesStr line (lit ''XXX'')
      \<or> includesStr line (lit ''BUG''))"

fun collectMarkers :: "jsstring list \<Rightarrow> jsstring list \<Rightarrow> jsstring list" where
  "collectMarkers [] errors = errors"
| "collectMarkers (line # lines) errors =
     collectMarkers lines
       (if hasMarker line then errors @ [take 100 (trimStr line)] else errors)"

definition extractErrorPatterns :: "jsstring \<Rightarrow> jsstring list" where
  "extractErrorPatterns code = take 10 (collectMarkers (splitOn 0x0A code) [])"

subsection \<open>Renderers\<close>

text \<open>\<open>a || d\<close> where \<open>a\<close> may be \<open>undefined\<close>.\<close>

definition orElse :: "json option \<Rightarrow> json \<Rightarrow> json" where
  "orElse v d = (case v of None \<Rightarrow> d | Some x \<Rightarrow> if truthy x then x else d)"

text \<open>
  The receiver of a string method such as \<open>split\<close>: any other value has no such method
  and the call throws a \<open>TypeError\<close>.
\<close>

fun stringReceiver :: "json \<Rightarrow> error + jsstring" where
  "stringReceiver (JStr s) = Inr s"
| "stringReceiver v = Inl TypeError"

text \<open>
  \<open>pattern.slice(0, n)\<close> printed in a template literal: strings and arrays have
  \<open>slice\<close>, and an array is printed by the runtime's conversion to string.
\<close>

fun sliceShown :: "platform \<Rightarrow> nat \<Rightarrow> json \<Rightarrow> error + jsstring" where
  "sliceShown P n (JStr s) = Inr (take n s)"
| "sliceShown P n (JArr xs) = Inr (toStringJS P (JArr (take n xs)))"
| "sliceShown P n v = Inl TypeError"

text \<open>\<open>xs.join(sep)\<close> on an array that may hold \<open>undefined\<close>, printed as the empty string.\<close>

definition joinOpt :: "jsstring \<Rightarrow> jsstring option list \<Rightarrow> jsstring" where
  "joinOpt sep xs = joinStr sep (map (\<lambda>v. case v of None \<Rightarrow> [] | Some s \<Rightarrow> s) xs)"

text \<open>\<open>(+k more)\<close> after a list of \<open>len\<close> entries cut to \<open>n\<close>.\<close>

definition plusMore :: "nat \<Rightarrow> nat \<Rightarrow> jsstring" where
  "plusMore n len = (if len > n then lit '' (+'' @ showNat (len - n) @ lit '' more)'' else [])"

text \<open>\<open>(toolInput?.file_path || "unknown").split("/").pop() || "file"\<close>\<close>

definition editedFileName :: "json option \<Rightarrow> error + jsstring" where
  "editedFileName toolInput =
     bindE (stringReceiver (orElse (getProp toolInput (lit ''file_path'')) (JStr (lit ''unknown''))))
       (\<lambda>filePath. Inr (orStr (Some (popSegment 0x2F filePath)) (lit ''file'')))"

definition compressFileRead :: "platform \<Rightarrow> json option \<Rightarrow> jsstring \<Rightarrow> error + jsstring" where
  "compressFileRead P toolInput output =
     bindE (editedFileName toolInput) (\<lambda>fileName.
       let lines = splitOn 0x0A output;
           totalLines = length lines;
           imports = extractImports P output;
           exports = extractExports P output;
           functions = extractFunctionSignatures P output;
           classes = extractClassNames P output;
           errors = extractErrorPatterns output;
           parts =
             [[0xD83D, 0xDCC4] @ lit '' File: '' @ fileName @ lit '' ('' @ showNat totalLines
                @ lit '' lines)'']
             @ (if length imports > 0
                then [[0x0A, 0xD83D, 0xDCE6] @ lit '' Imports: ''
                        @ joinStr (lit '', '') (take 10 imports) @ plusMore 10 (length imports)]
                else [])
             @ (if length exports > 0
                then [[0x0A, 0xD83D, 0xDCE4] @ lit '' Exports: ''
                        @ joinStr (lit '', '') (take 10 exports) @ plusMore 10 (length exports)]
                else [])
             @ (if length functions > 0
                then [[0x0A, 0x26A1] @ lit '' Functions: ''
                        @ joinOpt (lit '', '') (take 10 functions)
                        @ plusMore 10 (length functions)]
                else [])
             @ (if length classes > 0
                then [[0x0A, 0xD83C, 0xDFD7, 0xFE0F] @ lit '' Classes: ''
                        @ joinOpt (lit '', '') classes]
                else [])
             @ (if length errors > 0
                then [[0x0A, 0x26A0, 0xFE0F] @ lit '' Errors/TODOs: ''
                        @ joinStr (lit ''; '') (take 5 errors)]
                else []);
           contextLines =
             [0x0A # lit ''--- First 10 lines ---''] @ take 10 lines
             @ [0x0A # lit ''--- Last 5 lines ---''] @ sliceLast 5 lines
       in Inr (joinStr [] (parts @ [joinStr [0x0A] contextLines])))"

text \<open>\<open>s.split("\n")[0]\<close>\<close>

definition firstLine :: "jsstring \<Rightarrow> jsstring" where
  "firstLine s = (case splitOn 0x0A s of [] \<Rightarrow> [] | l # ls \<Rightarrow> l)"

definition compressBashOutput :: "platform \<Rightarrow> json option \<Rightarrow> jsstring \<Rightarrow> error + jsstring" where
  "compressBashOutput P toolInput output =
     bindE (stringReceiver (orElse (getProp toolInput (lit ''command'')) (JStr (lit ''command''))))
       (\<lambda>command.
       let shortCmd = take 100 (firstLine command);
           lines = splitOn 0x0A output;
           errorLines = filter (\<lambda>l.
               includesStr (toLowerCase P l) (lit ''error'')
               \<or> includesStr (toLowerCase P l) (lit ''failed'')
               \<or> includesStr (toLowerCase P l) (lit ''exception'')
               \<or> includesStr (toLowerCase P l) (lit ''warning'')) lines;
           successLines = filter (\<lambda>l.
               includesStr (toLowerCase P l) (lit ''success'')
               \<or> includesStr (toLowerCase P l) (lit ''passed'')
               \<or> includesStr (toLowerCase P l) (lit ''completed'')
               \<or> includesStr (toLowerCase P l) (lit ''done'')) lines;
           parts =
             [[0xD83D, 0xDDA5, 0xFE0F] @ lit '' Command: '' @ shortCmd]
             @ (if length errorLines > 0
                then [[0x0A, 0x274C] @ lit '' Errors ('' @ showNat (length errorLines) @ lit ''):'',
                      joinStr [0x0A] (take 10 errorLines)]
                else [])
             @ (if length successLines > 0
                then [[0x0A, 0x2705] @ lit '' Success indicators:'',
                      joinStr [0x0A] (take 5 successLines)]
                else [])
             @ [[0x0A, 0xD83D, 0xDCCA] @ lit '' Output: '' @ showNat (length lines)
                  @ lit '' lines total'']
             @ (if length lines > 20
                then [0x0A # lit ''--- First 10 lines ---'', joinStr [0x0A] (take 10 lines),
                      0x0A # lit ''--- Last 5 lines ---'', joinStr [0x0A] (sliceLast 5 lines)]
                else [0x0A # lit ''--- Full output ---'', joinStr [0x0A] lines])
       in Inr (joinStr [] parts))"

text \<open>
  \<open>line.match(/^([^:]+):/)\<close>: the text before the first colon, when that text is not
  empty and a colon follows it.
\<close>

definition grepFile :: "jsstring \<Rightarrow> jsstring option" where
  "grepFile line =
     (let pre = takeWhile (\<lambda>c. c \<noteq> 0x3A) line
      in if pre \<noteq> [] \<and> length pre < length line then Some pre else None)"

fun grepFiles :: "jsstring list \<Rightarrow> jsstring list \<Rightarrow> jsstring list" where
  "grepFiles [] files = files"
| "grepFiles (line # lines) files =
     grepFiles lines
       (case grepFile line of
          None \<Rightarrow> files
        | Some f \<Rightarrow> if f \<in> set files then files else files @ [f])"

definition compressGrepOutput :: "platform \<Rightarrow> json option \<Rightarrow> jsstring \<Rightarrow> error + jsstring" where
  "compressGrepOutput P toolInput output =
     (let pattern = orElse (getProp toolInput (lit ''pattern'')) (JStr (lit ''pattern''));
          lines = filter (\<lambda>l. l \<noteq> []) (splitOn 0x0A output);
          files = grepFiles lines []
      in bindE (sliceShown P 50 pattern) (\<lambda>shown.
         let parts =
               [[0xD83D, 0xDD0D] @ lit '' Grep: '' @ [0x22] @ shown @ [0x22],
                [0xD83D, 0xDCC1] @ lit '' Found in '' @ showNat (length files) @ lit '' files, ''
                  @ showNat (length lines) @ lit '' matches'']
               @ (if length files > 0
                  then [[0x0A, 0xD83D, 0xDCC2] @ lit '' Files: ''
                          @ joinStr (lit '', '') (take 15 files) @ plusMore 15 (length files)]
                  else [])
               @ [0x0A # lit ''--- Top matches ---'', joinStr [0x0A] (take 10 lines)]
               @ (if length lines > 10
                  then [0x0A # lit ''... and '' @ showNat (length lines - 10) @ lit '' more matches'']
                  else [])
         in Inr (joinStr [] parts)))"

text \<open>
  \<open>byDir\<close> is a plain object used as a dictionary from directory to file names. It is
  kept as an association list in insertion order. A key that names a property inherited
  from \<open>Object.prototype\<close> reads as that property, which is truthy and has no \<open>push\<close>:
  the call throws.
\<close>

definition objectPrototypeKeys :: "jsstring list" where
  "objectPrototypeKeys =
     [lit ''constructor'', lit ''__defineGetter__'', lit ''__defineSetter__'',
      lit ''hasOwnProperty'', lit ''__lookupGetter__'', lit ''__lookupSetter__'',
      lit ''isPrototypeOf'', lit ''propertyIsEnumerable'', lit ''toString'',
      lit ''valueOf'', lit ''__proto__'', lit ''toLocaleString'']"

fun pushByDir ::
  "jsstring \<Rightarrow> jsstring \<Rightarrow> (jsstring \<times> jsstring list) list \<Rightarrow> (jsstring \<times> jsstring list) list" where
  "pushByDir dir file [] = [(dir, [file])]"
| "pushByDir dir file ((d, fs) # rest) =
     (if d = dir then (d, fs @ [file]) # rest else (d, fs) # pushByDir dir file rest)"

fun groupByDir ::
  "json list \<Rightarrow> (jsstring \<times> jsstring list) list \<Rightarrow> error + (jsstring \<times> jsstring list) list" where
  "groupByDir [] byDir = Inr byDir"
| "groupByDir (f # fs) byDir =
     bindE (stringReceiver f) (\<lambda>path.
       let dir = orStr (Some (joinStr [0x2F] (butlast (splitOn 0x2F path)))) [0x2F];
           file = orStr (Some (popSegment 0x2F path)) path
       in if dir \<in> set objectPrototypeKeys then Inl TypeError
          else groupByDir fs (pushByDir dir file byDir))"

text \<open>
  \<open>Object.entries\<close> lists the keys that are array indices first, in ascending numeric
  order, and then the other keys in insertion order.
\<close>

definition isDigit :: "jschar \<Rightarrow> bool" where
  "isDigit c = (0x30 \<le> c \<and> c \<le> 0x39)"

definition digitsValue :: "jsstring \<Rightarrow> nat" where
  "digitsValue s = foldl (\<lambda>n c. 10 * n + unat (c - 0x30)) 0 s"

definition arrayIndex :: "jsstring \<Rightarrow> nat option" where
  "arrayIndex s =
     (if s \<noteq> [] \<and> list_all isDigit s \<and> (s = [0x30] \<or> take 1 s \<noteq> [0x30])
         \<and> digitsValue s \<le> 4294967294
      then Some (digitsValue s) else None)"

definition objectEntries :: "(jsstring \<times> 'a) list \<Rightarrow> (jsstring \<times> 'a) list" where
  "objectEntries kvs =
     sort_key (\<lambda>kv. case arrayIndex (fst kv) of Some i \<Rightarrow> i | None \<Rightarrow> 0)
       (filter (\<lambda>kv. arrayIndex (fst kv) \<noteq> None) kvs)
     @ filter (\<lambda>kv. arrayIndex (fst kv) = None) kvs"

text \<open>\<open>f.split("/").pop()\<close> on the entries of \<open>files\<close>, as the last \<open>map\<close> calls it.\<close>

fun sampleNames :: "json list \<Rightarrow> error + jsstring list" where
  "sampleNames [] = Inr []"
| "sampleNames (f # fs) =
     bindE (stringReceiver f) (\<lambda>path.
       bindE (sampleNames fs) (\<lambda>names. Inr (popSegment 0x2F path # names)))"

definition compressGlobOutput :: "platform \<Rightarrow> json option \<Rightarrow> jsstring \<Rightarrow> error + jsstring" where
  "compressGlobOutput P toolInput output =
     (let pattern = orElse (getProp toolInput (lit ''pattern'')) (JStr (lit ''pattern''));
          fallback = JArr (map JStr (filter (\<lambda>l. l \<noteq> []) (splitOn 0x0A output)));
          files = (case jsonParse P output of
                     None \<Rightarrow> fallback
                   | Some JNull \<Rightarrow> fallback
                   | Some parsed \<Rightarrow> orElse (getProp (Some parsed) (lit ''filenames'')) (JArr []))
      in case files of
           JArr fileList \<Rightarrow>
             bindE (groupByDir fileList []) (\<lambda>byDir.
             bindE (sliceShown P 50 pattern) (\<lambda>shown.
             bindE (sampleNames (take 15 fileList)) (\<lambda>names.
               let topDirs = take 5 (sort_key (\<lambda>e. - int (length (snd e))) (objectEntries byDir));
                   parts =
                     [[0xD83D, 0xDCC2] @ lit '' Glob: '' @ [0x22] @ shown @ [0x22],
                      [0xD83D, 0xDCC1] @ lit '' Found '' @ showNat (length fileList)
                        @ lit '' files in '' @ showNat (length byDir) @ lit '' directories'']
                     @ [0x0A # lit ''--- Top directories ---'']
                     @ map (\<lambda>e. joinStr [0x2F] (sliceLast 3 (splitOn 0x2F (fst e)))
                                 @ lit ''/ ('' @ showNat (length (snd e)) @ lit '' files)'') topDirs
                     @ [0x0A # lit ''--- Sample files ---'']
                     @ [joinStr (lit '', '') names]
               in Inr (joinStr [] parts))))
         | _ \<Rightarrow> Inl TypeError)"

definition compressEditOutput :: "json option \<Rightarrow> jsstring \<Rightarrow> error + jsstring" where
  "compressEditOutput toolInput output =
     bindE (editedFileName toolInput) (\<lambda>fileName.
       Inr (joinStr [0x0A]
              [[0x270F, 0xFE0F] @ lit '' Edited: '' @ fileName,
               [0xD83D, 0xDCDD] @ lit '' Changes applied successfully'',
               take 500 output]))"

definition compressGeneric :: "jsstring \<Rightarrow> jsstring" where
  "compressGeneric output =
     (let lines = splitOn 0x0A output
      in if length lines \<le> 30 then output
         else joinStr [0x0A]
                ([[0xD83D, 0xDCCA] @ lit '' Output: '' @ showNat (length lines) @ lit '' lines'',
                  lit ''--- First 15 lines ---'']
                 @ take 15 lines
                 @ [lit ''--- Last 10 lines ---'']
                 @ sliceLast 10 lines))"

subsection \<open>The compressor\<close>

definition TARGET_COMPRESSED_SIZE :: nat where
  "TARGET_COMPRESSED_SIZE = 2000"

definition COMPRESSION_THRESHOLD :: nat where
  "COMPRESSION_THRESHOLD = 3000"

definition truncateToTarget :: "jsstring \<Rightarrow> jsstring" where
  "truncateToTarget text =
     (if length text \<le> TARGET_COMPRESSED_SIZE then text
      else take (TARGET_COMPRESSED_SIZE - 20) text @ (0x0A # lit ''... (compressed)''))"

record CompressionResult =
  compressed :: jsstring
  wasCompressed :: bool
  originalSize :: nat

text \<open>The text a tool's renderer produces: the \<open>switch\<close> of \<open>compressToolOutput\<close>.\<close>

definition renderTool :: "platform \<Rightarrow> jsstring \<Rightarrow> json option \<Rightarrow> jsstring \<Rightarrow> error + jsstring" where
  "renderTool P toolName toolInput output =
     (if toolName = lit ''Read'' then compressFileRead P toolInput output
      else if toolName = lit ''Bash'' then compressBashOutput P toolInput output
      else if toolName = lit ''Grep'' then compressGrepOutput P toolInput output
      else if toolName = lit ''Glob'' then compressGlobOutput P toolInput output
      else if toolName = lit ''Edit'' \<or> toolName = lit ''Write''
      then compressEditOutput toolInput output
      else Inr (compressGeneric output))"

definition compressToolOutput ::
  "platform \<Rightarrow> jsstring \<Rightarrow> json option \<Rightarrow> jsstring \<Rightarrow> error + CompressionResult" where
  "compressToolOutput P toolName toolInput output =
     (let originalSize = length output
      in if originalSize \<le> COMPRESSION_THRESHOLD
         then Inr \<lparr> compressed = output, wasCompressed = False, originalSize = originalSize \<rparr>
         else bindE (renderTool P toolName toolInput output) (\<lambda>rendered.
                Inr \<lparr> compressed = truncateToTarget rendered, wasCompressed = True,
                      originalSize = originalSize \<rparr>))"

section \<open>The post-tool-use hook\<close>

text \<open>
  \<open>x?.method()\<close> on the value of an optional field: \<open>undefined\<close> and \<open>null\<close> end the
  chain with \<open>undefined\<close>, a string has the method, anything else throws.
\<close>

fun optStringReceiver :: "json option \<Rightarrow> error + jsstring option" where
  "optStringReceiver None = Inr None"
| "optStringReceiver (Some JNull) = Inr None"
| "optStringReceiver (Some (JStr s)) = Inr (Some s)"
| "optStringReceiver (Some v) = Inl TypeError"

text \<open>\<open>x?.slice(0, n)\<close> printed in a template literal: \<open>undefined\<close> prints as itself.\<close>

fun optSliceShown :: "platform \<Rightarrow> nat \<Rightarrow> json option \<Rightarrow> error + jsstring" where
  "optSliceShown P n None = Inr (lit ''undefined'')"
| "optSliceShown P n (Some JNull) = Inr (lit ''undefined'')"
| "optSliceShown P n (Some v) = sliceShown P n v"

text \<open>\<open>a || b\<close> where both may be \<open>undefined\<close>.\<close>

definition orUndef :: "json option \<Rightarrow> json option \<Rightarrow> json option" where
  "orUndef a b = (case a of None \<Rightarrow> b | Some x \<Rightarrow> if truthy x then Some x else b)"

text \<open>\<open>path?.split("/").pop() || "file"\<close>\<close>

definition summaryFileName :: "json option \<Rightarrow> error + jsstring" where
  "summaryFileName toolInput =
     bindE (optStringReceiver (getProp toolInput (lit ''file_path''))) (\<lambda>path.
       Inr (orStr (map_option (popSegment 0x2F) path) (lit ''file'')))"

definition generateSummary :: "platform \<Rightarrow> jsstring \<Rightarrow> json option \<Rightarrow> jsstring \<Rightarrow> error + jsstring" where
  "generateSummary P toolName toolInput toolOutput =
     (if toolName = lit ''Read'' then
        bindE (summaryFileName toolInput) (\<lambda>fileName.
          let lines = length (splitOn 0x0A toolOutput)
          in Inr (lit ''Read '' @ fileName @ lit '' ('' @ showNat lines @ lit '' lines)''))
      else if toolName = lit ''Edit'' then
        bindE (summaryFileName toolInput) (\<lambda>fileName. Inr (lit ''Edited '' @ fileName))
      else if toolName = lit ''Write'' then
        bindE (summaryFileName toolInput) (\<lambda>fileName. Inr (lit ''Created '' @ fileName))
      else if toolName = lit ''Bash'' then
        bindE (optStringReceiver (getProp toolInput (lit ''command''))) (\<lambda>cmd.
          let shortCmd = orStr (map_option (\<lambda>c. take 50 (firstLine c)) cmd) (lit ''command'');
              hasError = (includesStr (toLowerCase P toolOutput) (lit ''error'')
                          \<or> includesStr (toLowerCase P toolOutput) (lit ''failed''))
          in Inr (if hasError then lit ''Command failed: '' @ shortCmd
                  else lit ''Ran: '' @ shortCmd))
      else if toolName = lit ''Grep'' then
        (let pattern = getProp toolInput (lit ''pattern'');
             matches = length (filter (\<lambda>l. l \<noteq> []) (splitOn 0x0A toolOutput))
         in bindE (optSliceShown P 30 pattern) (\<lambda>shown.
              Inr (lit ''Found '' @ showNat matches @ lit '' matches for '' @ [0x22] @ shown @ [0x22])))
      else if toolName = lit ''Glob'' then
        (let pattern = getProp toolInput (lit ''pattern'');
             matches = length (filter (\<lambda>l. l \<noteq> []) (splitOn 0x0A toolOutput))
         in bindE (optSliceShown P 30 pattern) (\<lambda>shown.
              Inr (lit ''Found '' @ showNat matches @ lit '' files matching '' @ [0x22] @ shown
                   @ [0x22])))
      else if toolName = lit ''WebFetch'' \<or> toolName = lit ''WebSearch'' then
        (let url = orUndef (getProp toolInput (lit ''url'')) (getProp toolInput (lit ''query''))
         in bindE (optSliceShown P 50 url) (\<lambda>shown. Inr (lit ''Fetched: '' @ shown)))
      else Inr (toolName @ lit '' completed''))"

text \<open>
  The metadata object, as the list of its properties in the order they are set.
  \<open>if (!toolInput) return metadata\<close> is the first test.
\<close>

definition truthyOpt :: "json option \<Rightarrow> bool" where
  "truthyOpt v = (case v of None \<Rightarrow> False | Some x \<Rightarrow> truthy x)"

text \<open>\<open>toolInput.command.slice(0, 200)\<close> on a truthy value, stored as it is.\<close>

fun sliceValue :: "nat \<Rightarrow> json \<Rightarrow> error + json" where
  "sliceValue n (JStr s) = Inr (JStr (take n s))"
| "sliceValue n (JArr xs) = Inr (JArr (take n xs))"
| "sliceValue n v = Inl TypeError"

definition extractMetadata :: "jsstring \<Rightarrow> json option \<Rightarrow> error + (jsstring \<times> json) list" where
  "extractMetadata toolName toolInput =
     (if \<not> truthyOpt toolInput then Inr []
      else if toolName = lit ''Read'' \<or> toolName = lit ''Edit'' \<or> toolName = lit ''Write'' then
        (case getProp toolInput (lit ''file_path'') of
           None \<Rightarrow> Inr []
         | Some v \<Rightarrow> Inr (if truthy v then [(lit ''files'', JArr [v])] else []))
      else if toolName = lit ''Bash'' then
        (case getProp toolInput (lit ''command'') of
           None \<Rightarrow> Inr []
         | Some v \<Rightarrow>
             if truthy v then bindE (sliceValue 200 v) (\<lambda>c. Inr [(lit ''command'', c)])
             else Inr [])
      else if toolName = lit ''Grep'' \<or> toolName = lit ''Glob'' then
        Inr ((case getProp toolInput (lit ''pattern'') of
                None \<Rightarrow> []
              | Some v \<Rightarrow> if truthy v then [(lit ''pattern'', v)] else [])
             @ (case getProp toolInput (lit ''path'') of
                  None \<Rightarrow> []
                | Some v \<Rightarrow> if truthy v then [(lit ''searchPath'', v)] else []))
      else Inr [])"

definition OBSERVED_TOOLS :: "jsstring list" where
  "OBSERVED_TOOLS =
     [lit ''Read'', lit ''Edit'', lit ''Write'', lit ''Update'', lit ''Bash'', lit ''Grep'',
      lit ''Glob'', lit ''WebFetch'', lit ''WebSearch'', lit ''Task'', lit ''NotebookEdit'']"

definition MIN_OUTPUT_LENGTH :: nat where
  "MIN_OUTPUT_LENGTH = 50"

definition ALWAYS_CAPTURE_TOOLS :: "jsstring list" where
  "ALWAYS_CAPTURE_TOOLS = [lit ''Edit'', lit ''Write'', lit ''Update'', lit ''NotebookEdit'']"

definition MAX_OUTPUT_LENGTH :: nat where
  "MAX_OUTPUT_LENGTH = 2500"

text \<open>The argument of \<open>mind.remember\<close>.\<close>

record RememberInput =
  rType :: ObservationType
  rSummary :: jsstring
  rContent :: jsstring
  rTool :: jsstring
  rMetadata :: "(jsstring \<times> json) list"

text \<open>
  \<open>tool_output\<close>: the response itself when it is a string, else
  \<open>JSON.stringify(tool_response, null, 2)\<close>, which is \<open>undefined\<close> for \<open>undefined\<close>.
\<close>

definition toolOutputOf :: "platform \<Rightarrow> json option \<Rightarrow> jsstring option" where
  "toolOutputOf P tool_response =
     (case tool_response of
        None \<Rightarrow> None
      | Some (JStr s) \<Rightarrow> Some s
      | Some v \<Rightarrow> Some (jsonStringify P v))"

text \<open>
  \<open>effectiveOutput\<close>: the output, or for an always-captured tool whose output is shorter
  than the minimum, the synthetic body built from the file path.
\<close>

definition effectiveOutputOf ::
  "jsstring \<Rightarrow> json option \<Rightarrow> jsstring option \<Rightarrow> error + jsstring" where
  "effectiveOutputOf tool_name tool_input tool_output =
     (let effectiveOutput = orStr tool_output [];
          alwaysCapture = (tool_name \<in> set ALWAYS_CAPTURE_TOOLS)
      in if alwaysCapture \<and> length effectiveOutput < MIN_OUTPUT_LENGTH
         then bindE (stringReceiver (orElse (getProp tool_input (lit ''file_path''))
                                            (JStr (lit ''unknown file''))))
                (\<lambda>filePath.
                   let fileName = orStr (Some (popSegment 0x2F filePath)) (lit ''file'')
                   in Inr (lit ''File modified: '' @ fileName @ [0x0A] @ lit ''Path: '' @ filePath
                           @ [0x0A] @ lit ''Tool: '' @ tool_name))
         else Inr effectiveOutput)"

text \<open>
  The external store, as far as the hook sees it: whether \<open>getMind()\<close> resolves and
  whether \<open>mind.remember\<close> does. A failure of either is an exception in the hook.
\<close>

record MindStatus =
  opens :: bool
  accepts :: bool

text \<open>
  The body of \<open>try\<close> after \<open>JSON.parse\<close>: the observation stored, \<open>None\<close> when the hook
  returns without storing. \<open>Inl\<close> is an exception, caught by \<open>main\<close>. Only the debug
  messages are left out.
\<close>

definition observeTool :: "platform \<Rightarrow> MindStatus \<Rightarrow> json \<Rightarrow> error + RememberInput option" where
  "observeTool P mind hookInput =
     (if hookInput = JNull then Inl TypeError
      else
        let tool_name = getProp (Some hookInput) (lit ''tool_name'');
            tool_input = getProp (Some hookInput) (lit ''tool_input'');
            tool_response = getProp (Some hookInput) (lit ''tool_response'')
        in case tool_name of
             Some (JStr name) \<Rightarrow>
               if name \<notin> set OBSERVED_TOOLS then Inr None
               else
                 let tool_output = toolOutputOf P tool_response;
                     alwaysCapture = (name \<in> set ALWAYS_CAPTURE_TOOLS)
                 in if \<not> alwaysCapture
                       \<and> (case tool_output of
                              None \<Rightarrow> True
                            | Some out \<Rightarrow> out = [] \<or> length out < MIN_OUTPUT_LENGTH)
                    then Inr None
                    else
                      bindE (effectiveOutputOf name tool_input tool_output) (\<lambda>effectiveOutput.
                        if includesStr effectiveOutput (lit ''<system-reminder>'')
                           \<or> includesStr effectiveOutput (lit ''<memvid-mind-context>'')
                        then Inr None
                        else
                          bindE (compressToolOutput P name tool_input effectiveOutput) (\<lambda>c.
                            if \<not> opens mind then Inl StoreFailure
                            else
                              let observationType = classifyObservationType P name (compressed c)
                              in bindE (generateSummary P name tool_input effectiveOutput) (\<lambda>summary.
                                   let content =
                                         (if length (compressed c) > MAX_OUTPUT_LENGTH
                                          then take MAX_OUTPUT_LENGTH (compressed c)
                                               @ (0x0A # lit ''... (compressed)'')
                                          else compressed c)
                                   in bindE (extractMetadata name tool_input) (\<lambda>metadata0.
                                        let metadata =
                                              (if wasCompressed c
                                               then metadata0
                                                    @ [(lit ''compressed'', JBool True),
                                                       (lit ''originalSize'', JNum (real (originalSize c))),
                                                       (lit ''compressedSize'',
                                                        JNum (real (length (compressed c))))]
                                               else metadata0)
                                        in if \<not> accepts mind then Inl StoreFailure
                                           else Inr (Some \<lparr> rType = observationType,
                                                             rSummary = summary,
                                                             rContent = content,
                                                             rTool = name,
                                                             rMetadata = metadata \<rparr>)))))
           | _ \<Rightarrow> Inr None)"

record HookOutput =
  continue :: bool

record HookResult =
  stored :: "RememberInput option"
  written :: HookOutput

definition main :: "platform \<Rightarrow> MindStatus \<Rightarrow> jsstring \<Rightarrow> HookResult" where
  "main P mind input =
     (case jsonParse P input of
        None \<Rightarrow> \<lparr> stored = None, written = \<lparr> continue = True \<rparr> \<rparr>
      | Some hookInput \<Rightarrow>
          (case observeTool P mind hookInput of
             Inl e \<Rightarrow> \<lparr> stored = None, written = \<lparr> continue = True \<rparr> \<rparr>
           | Inr r \<Rightarrow> \<lparr> stored = r, written = \<lparr> continue = True \<rparr> \<rparr>))"

section \<open>The context assembler\<close>

text \<open>
  The records of the type declarations. At run time \<open>type\<close> holds whatever label the
  store returns for the frame, so it is a string here.
\<close>

record ObservationMetadata =
  files :: "jsstring list option"
  sessionId :: "jsstring option"

record Observation =
  obsId :: jsstring
  timestamp :: int
  type :: jsstring
  tool :: "jsstring option"
  summary :: jsstring
  content :: jsstring
  metadata :: "ObservationMetadata option"

record SessionSummary =
  sessionSummaryId :: jsstring
  startTime :: int
  endTime :: int
  observationCount :: nat
  savedKeyDecisions :: "jsstring list"
  savedFilesModified :: "jsstring list"
  savedSummary :: jsstring

record InjectedContext =
  recentObservations :: "Observation list"
  relevantMemories :: "Observation list"
  sessionSummaries :: "SessionSummary list"
  tokenCount :: nat

record MindConfig =
  memoryPath :: jsstring
  maxContextObservations :: nat
  maxContextTokens :: int
  autoCompress :: bool
  minConfidence :: real
  debug :: bool

definition DEFAULT_CONFIG :: MindConfig where
  "DEFAULT_CONFIG =
     \<lparr> memoryPath = lit ''.claude/mind.mv2'', maxContextObservations = 20,
       maxContextTokens = 2000, autoCompress = True, minConfidence = 0.6, debug = False \<rparr>"

text \<open>
  The answers of the external store, already mapped to observations as the first half
  of \<open>getContext\<close> and \<open>search\<close> do: the newest frames up to a limit, and the hits of
  a lexical search.
\<close>

record MindStore =
  timeline :: "nat \<Rightarrow> Observation list"
  search :: "jsstring \<Rightarrow> nat \<Rightarrow> Observation list"

text \<open>
  The loop over the recent observations. Its state is \<open>contextParts\<close> and the
  running \<open>tokenCount\<close> (here \<open>count\<close>); \<open>break\<close> leaves the rest of the list unread.
\<close>

definition obsText :: "Observation \<Rightarrow> jsstring" where
  "obsText obs = lit ''['' @ type obs @ lit ''] '' @ summary obs"

fun contextLoop :: "int \<Rightarrow> Observation list \<Rightarrow> jsstring list \<times> nat \<Rightarrow> jsstring list \<times> nat" where
  "contextLoop maxTokens [] (contextParts, count) = (contextParts, count)"
| "contextLoop maxTokens (obs # rest) (contextParts, count) =
     (let text = obsText obs;
          tokens = estimateTokens text
      in if int (count + tokens) > maxTokens then (contextParts, count)
         else contextLoop maxTokens rest (contextParts @ [text], count + tokens))"

definition getContext :: "MindConfig \<Rightarrow> MindStore \<Rightarrow> jsstring option \<Rightarrow> InjectedContext" where
  "getContext config store query =
     (let recent = timeline store (maxContextObservations config);
          relevant = (case query of
                        None \<Rightarrow> []
                      | Some q \<Rightarrow> if q \<noteq> [] then search store q 10 else []);
          (contextParts, count) = contextLoop (maxContextTokens config) recent ([], 0)
      in \<lparr> recentObservations = recent,
           relevantMemories = relevant,
           sessionSummaries = [],
           tokenCount = count \<rparr>)"

section \<open>The session synthesizer\<close>

definition isDecision :: "platform \<Rightarrow> Observation \<Rightarrow> bool" where
  "isDecision P obs =
     (type obs = lit ''decision''
      \<or> includesStr (toLowerCase P (summary obs)) (lit ''chose'')
      \<or> includesStr (toLowerCase P (summary obs)) (lit ''decided''))"

text \<open>\<open>obs.metadata?.files\<close>\<close>

definition metadataFiles :: "Observation \<Rightarrow> jsstring list option" where
  "metadataFiles obs = (case metadata obs of None \<Rightarrow> None | Some md \<Rightarrow> files md)"

text \<open>The first loop: \<open>keyDecisions\<close> and the set \<open>filesModified\<close>.\<close>

fun scanObservations ::
  "platform \<Rightarrow> Observation list \<Rightarrow> jsstring list \<times> jsstring list \<Rightarrow> jsstring list \<times> jsstring list" where
  "scanObservations P [] (keyDecisions, filesModified) = (keyDecisions, filesModified)"
| "scanObservations P (obs # rest) (keyDecisions, filesModified) =
     scanObservations P rest
       (if isDecision P obs then keyDecisions @ [summary obs] else keyDecisions,
        case metadataFiles obs of
          None \<Rightarrow> filesModified
        | Some fs \<Rightarrow> setAddAll fs filesModified)"

text \<open>The paths mined from the transcript by one pattern.\<close>

definition pickPath :: "rmatch \<Rightarrow> jsstring list" where
  "pickPath m =
     (case grp m 1 of
        None \<Rightarrow> []
      | Some path \<Rightarrow>
          if path \<noteq> [] \<and> \<not> includesStr path (lit ''node_modules'') \<and> \<not> startsWith path (lit ''.'')
          then [path] else [])"

definition transcriptPaths :: "platform \<Rightarrow> jsstring option \<Rightarrow> jsstring list" where
  "transcriptPaths P transcript =
     (case transcript of
        None \<Rightarrow> []
      | Some t \<Rightarrow>
          if t \<noteq> [] then scanPatterns P pickPath [ToolCallPath, FilePathKey] t [] else [])"

text \<open>\<open>typeCounts[t]\<close> after the second loop, for a type name \<open>t\<close>.\<close>

fun typeCount :: "jsstring \<Rightarrow> Observation list \<Rightarrow> nat" where
  "typeCount t [] = 0"
| "typeCount t (obs # rest) = (if type obs = t then 1 else 0) + typeCount t rest"

definition countClause :: "jsstring \<Rightarrow> nat \<Rightarrow> jsstring \<Rightarrow> jsstring list" where
  "countClause before n after = (if n > 0 then [before @ showNat n @ after] else [])"

record SummaryDraft =
  keyDecisions :: "jsstring list"
  filesModified :: "jsstring list"
  summaryText :: jsstring

definition generateSessionSummary ::
  "platform \<Rightarrow> Observation list \<Rightarrow> jsstring option \<Rightarrow> SummaryDraft" where
  "generateSessionSummary P observations transcript =
     (let (decisions, obsFiles) = scanObservations P observations ([], []);
          allFiles = setAddAll (transcriptPaths P transcript) obsFiles;
          summaryParts =
            countClause (lit ''Added '') (typeCount (lit ''feature'') observations) (lit '' feature(s)'')
            @ countClause (lit ''Fixed '') (typeCount (lit ''bugfix'') observations) (lit '' bug(s)'')
            @ countClause (lit ''Refactored '') (typeCount (lit ''refactor'') observations)
                (lit '' item(s)'')
            @ countClause (lit ''Made '') (typeCount (lit ''discovery'') observations)
                (lit '' discovery(ies)'')
            @ countClause (lit ''Encountered '') (typeCount (lit ''problem'') observations)
                (lit '' problem(s)'')
            @ countClause (lit ''Found '') (typeCount (lit ''solution'') observations)
                (lit '' solution(s)'');
          narrative =
            (if length summaryParts > 0 then joinStr (lit ''. '') summaryParts @ lit ''.''
             else lit ''Session with '' @ showNat (length observations) @ lit '' observations.'')
      in \<lparr> keyDecisions = take 10 decisions,
           filesModified = take 20 allFiles,
           summaryText = narrative \<rparr>)"

section \<open>Sample data\<close>

text \<open>
  A store that answers the timeline with copies of one observation whose text
  \<open>[discovery] xxx...\<close> has 200 characters, that is 50 tokens, and a configuration with
  a window of 30 observations and a budget of 220 tokens.
\<close>

definition sampleObservation :: Observation where
  "sampleObservation =
     \<lparr> obsId = lit ''a1b2c3d4e5f60718'', timestamp = 1700000000000, type = lit ''discovery'',
       tool = Some (lit ''Read''), summary = replicate 188 0x78, content = lit ''body'',
       metadata = None \<rparr>"

definition sampleStore :: MindStore where
  "sampleStore = \<lparr> timeline = (\<lambda>limit. replicate limit sampleObservation),
                    search = (\<lambda>q k. []) \<rparr>"

definition sampleConfig :: MindConfig where
  "sampleConfig = DEFAULT_CONFIG \<lparr> maxContextObservations := 30, maxContextTokens := 220 \<rparr>"

text \<open>
  Four observations of one session: a decision, two that carry a file each, and one
  with no metadata.
\<close>

definition sessionObservations :: "Observation list" where
  "sessionObservations =
     [\<lparr> obsId = lit ''0000000000000001'', timestamp = 1700000000000, type = lit ''decision'',
        tool = None, summary = lit ''Chose Postgres over MySQL'', content = lit ''rationale'',
        metadata = Some \<lparr> files = None, sessionId = Some (lit ''s1'') \<rparr> \<rparr>,
      \<lparr> obsId = lit ''0000000000000002'', timestamp = 1700000001000, type = lit ''discovery'',
        tool = Some (lit ''Read''), summary = lit ''Read a.ts (10 lines)'', content = lit ''text'',
        metadata = Some \<lparr> files = Some [lit ''a.ts''], sessionId = Some (lit ''s1'') \<rparr> \<rparr>,
      \<lparr> obsId = lit ''0000000000000003'', timestamp = 1700000002000, type = lit ''refactor'',
        tool = Some (lit ''Edit''), summary = lit ''Edited b.ts'', content = lit ''text'',
        metadata = Some \<lparr> files = Some [lit ''b.ts''], sessionId = Some (lit ''s1'') \<rparr> \<rparr>,
      \<lparr> obsId = lit ''0000000000000004'', timestamp = 1700000003000, type = lit ''problem'',
        tool = Some (lit ''Bash''), summary = lit ''Command failed: npm test'', content = lit ''text'',
        metadata = None \<rparr>]"

text \<open>
  Two hook events, a platform on which the text on standard input parses to a given
  event, and a store that opens and accepts. The first event is a \<open>Bash\<close> call whose
  output has 2501 characters; the second an \<open>Edit\<close> call with a two-character response.
\<close>

definition parsingPlatform :: "json \<Rightarrow> platform" where
  "parsingPlatform hookInput = asciiPlatform \<lparr> jsonParse := (\<lambda>text. Some hookInput) \<rparr>"

definition storeReady :: MindStatus where
  "storeReady = \<lparr> opens = True, accepts = True \<rparr>"

definition longOutputEvent :: json where
  "longOutputEvent =
     JObj [(lit ''tool_name'', JStr (lit ''Bash'')),
           (lit ''tool_input'', JObj [(lit ''command'', JStr (lit ''ls -la''))]),
           (lit ''tool_response'', JStr (replicate 2501 0x61))]"

definition shortEditEvent :: json where
  "shortEditEvent =
     JObj [(lit ''tool_name'', JStr (lit ''Edit'')),
           (lit ''tool_input'', JObj [(lit ''file_path'', JStr (lit ''/src/app.ts''))]),
           (lit ''tool_response'', JStr (lit ''ok''))]"

section \<open>Facts about strings\<close>

lemma startsWith_iff: "startsWith s n \<longleftrightarrow> (\<exists>r. s = n @ r)"
  by (induction s n rule: startsWith.induct) auto

lemma includesStr_iff: "includesStr s n \<longleftrightarrow> (\<exists>p r. s = p @ n @ r)"
proof (induction s)
  case Nil
  then show ?case by auto
next
  case (Cons c cs)
  show ?case
  proof
    assume "includesStr (c # cs) n"
    then consider "startsWith (c # cs) n" | "includesStr cs n" by auto
    then show "\<exists>p r. c # cs = p @ n @ r"
    proof cases
      case 1
      then obtain r where "c # cs = n @ r" by (auto simp: startsWith_iff)
      then have "c # cs = [] @ n @ r" by simp
      then show ?thesis by blast
    next
      case 2
      then obtain p r where "cs = p @ n @ r" using Cons.IH by blast
      then have "c # cs = (c # p) @ n @ r" by simp
      then show ?thesis by blast
    qed
  next
    assume "\<exists>p r. c # cs = p @ n @ r"
    then obtain p r where pr: "c # cs = p @ n @ r" by blast
    show "includesStr (c # cs) n"
    proof (cases p)
      case Nil
      then have "startsWith (c # cs) n" using pr by (auto simp: startsWith_iff)
      then show ?thesis by simp
    next
      case (Cons a p')
      then have "cs = p' @ n @ r" using pr by simp
      then have "includesStr cs n" using Cons.IH by blast
      then show ?thesis by simp
    qed
  qed
qed

lemma pushMatches_eq: "pushMatches pick ms acc = acc @ concat (map pick ms)"
  by (induction ms arbitrary: acc) simp_all

lemma scanPatterns_eq:
  "scanPatterns P pick rs code acc
   = acc @ concat (map (\<lambda>r. concat (map pick (regexExecAll P r code))) rs)"
  by (induction rs arbitrary: acc) (simp_all add: pushMatches_eq)

lemma remdups_snoc: "remdups (zs @ [x]) = remdups (filter (\<lambda>y. y \<noteq> x) zs) @ [x]"
  by (induction zs) auto

lemma setAddAll_eq:
  "setAddAll xs seen = seen @ rev (remdups (rev (filter (\<lambda>x. x \<notin> set seen) xs)))"
proof (induction xs arbitrary: seen)
  case Nil
  then show ?case by simp
next
  case (Cons x xs)
  show ?case
  proof (cases "x \<in> set seen")
    case True
    then show ?thesis using Cons.IH[of seen] by simp
  next
    case False
    have "(\<lambda>y. y \<notin> set (seen @ [x])) = (\<lambda>y. y \<noteq> x \<and> y \<notin> set seen)" by auto
    then show ?thesis using False Cons.IH[of "seen @ [x]"]
      by (simp add: remdups_snoc rev_filter conj_commute)
  qed
qed

lemma newSet_eq: "newSet xs = rev (remdups (rev xs))"
  by (simp add: newSet_def setAddAll_eq)

lemma collectMarkers_eq:
  "collectMarkers lines acc = acc @ map (\<lambda>l. take 100 (trimStr l)) (filter hasMarker lines)"
  by (induction lines arbitrary: acc) simp_all

lemma truncateToTarget_le: "length (truncateToTarget t) \<le> 2000"
  by (simp add: truncateToTarget_def TARGET_COMPRESSED_SIZE_def lit_def)

lemma splitOn_no_sep: "sep \<notin> set s \<Longrightarrow> splitOn sep s = [s]"
  by (induction s) auto

lemma includesStr_set: "includesStr s n \<Longrightarrow> set n \<subseteq> set s"
  by (auto simp: includesStr_iff)


section \<open>The classifier\<close>

text \<open>
  C5. Whenever the lower-cased output contains both \<open>error\<close> and \<open>success\<close> as
  substrings, the classifier answers \<open>problem\<close>: the error test comes first. For every
  tool name and output the classifier returns a value, and its name is one of the ten
  fixed category names.
\<close>

theorem classify_priority_total:
  "(toLowerCase P output = p1 @ lit ''error'' @ r1 \<longrightarrow>
    toLowerCase P output = p2 @ lit ''success'' @ r2 \<longrightarrow>
    classifyObservationType P toolName output = Problem)
   \<and> typeName (classifyObservationType P toolName output) \<in> set observationTypes
   \<and> length observationTypes = 10 \<and> distinct observationTypes"
proof -
  have a: "toLowerCase P output = p1 @ lit ''error'' @ r1 \<Longrightarrow>
           classifyObservationType P toolName output = Problem"
  proof -
    assume "toLowerCase P output = p1 @ lit ''error'' @ r1"
    then have "includesStr (toLowerCase P output) (lit ''error'')"
      unfolding includesStr_iff by blast
    then show ?thesis by (simp add: classifyObservationType_def)
  qed
  have b: "typeName t \<in> set observationTypes" for t
    by (cases t) (simp_all add: observationTypes_def)
  have c: "length observationTypes = 10" by (simp add: observationTypes_def)
  have d: "distinct observationTypes" by (simp add: observationTypes_def lit_def)
  from a b c d show ?thesis by blast
qed

theorem classify_priority_total_witness:
  "classifyObservationType asciiPlatform (lit ''Bash'') (lit ''Error: 1 failed, success: 3'') = Problem"
proof -
  have l: "toLowerCase asciiPlatform (lit ''Error: 1 failed, success: 3'')
           = lit ''error: 1 failed, success: 3''"
    by (simp add: asciiPlatform_def asciiLower_def lit_def)
  have e: "lit ''error: 1 failed, success: 3'' = [] @ lit ''error'' @ lit '': 1 failed, success: 3''"
    by (simp add: lit_def)
  have s: "lit ''error: 1 failed, success: 3'' = lit ''error: 1 failed, '' @ lit ''success'' @ lit '': 3''"
    by (simp add: lit_def)
  show ?thesis
    using classify_priority_total
      [of asciiPlatform "lit ''Error: 1 failed, success: 3''" "[]" "lit '': 1 failed, success: 3''"
          "lit ''error: 1 failed, ''" "lit '': 3''" "lit ''Bash''"] l e s
    by metis
qed

section \<open>The compressor\<close>

text \<open>
  C2. An output of at most 3000 characters comes back unchanged, whatever the tool name
  and the tool input: \<open>compressed\<close> is the output itself, \<open>wasCompressed\<close> is false and
  \<open>originalSize\<close> is the length of the output.
\<close>

theorem compress_below_threshold:
  "length output \<le> 3000 \<Longrightarrow>
   compressToolOutput P toolName toolInput output
   = Inr \<lparr> compressed = output, wasCompressed = False, originalSize = length output \<rparr>"
  by (simp add: compressToolOutput_def COMPRESSION_THRESHOLD_def)

theorem compress_below_threshold_witness:
  "length (replicate 3000 (0x61 :: jschar)) \<le> 3000
   \<and> compressToolOutput asciiPlatform (lit ''Read'') None (replicate 3000 0x61)
     = Inr \<lparr> compressed = replicate 3000 0x61, wasCompressed = False, originalSize = 3000 \<rparr>"
  using compress_below_threshold [of "replicate 3000 (0x61 :: jschar)" asciiPlatform "lit ''Read''" None]
  by simp

lemma renderTool_returns:
  assumes "toolName \<noteq> lit ''Glob''"
    and "\<forall>k. getProp toolInput k = None \<or> (\<exists>s. getProp toolInput k = Some (JStr s))"
  shows "\<exists>rendered. renderTool P toolName toolInput output = Inr rendered"
proof -
  have recv: "\<exists>s. stringReceiver (orElse (getProp toolInput k) (JStr d)) = Inr s" for k d
    using assms(2)[rule_format, of k] by (auto simp: orElse_def)
  have shown: "\<exists>s. sliceShown P n (orElse (getProp toolInput k) (JStr d)) = Inr s" for k d n
    using assms(2)[rule_format, of k] by (auto simp: orElse_def)
  have name: "\<exists>s. editedFileName toolInput = Inr s"
    using recv[of "lit ''file_path''" "lit ''unknown''"]
    by (auto simp: editedFileName_def bindE_def)
  have rd: "\<exists>s. compressFileRead P toolInput output = Inr s"
    using name by (auto simp: compressFileRead_def bindE_def Let_def)
  have ed: "\<exists>s. compressEditOutput toolInput output = Inr s"
    using name by (auto simp: compressEditOutput_def bindE_def)
  have ba: "\<exists>s. compressBashOutput P toolInput output = Inr s"
    using recv[of "lit ''command''" "lit ''command''"]
    by (auto simp: compressBashOutput_def bindE_def Let_def)
  have gr: "\<exists>s. compressGrepOutput P toolInput output = Inr s"
    using shown[of 50 "lit ''pattern''" "lit ''pattern''"]
    by (auto simp: compressGrepOutput_def bindE_def Let_def)
  show ?thesis using assms(1) rd ed ba gr by (auto simp: renderTool_def)
qed

text \<open>
  C3. For an output of more than 3000 characters, every result of \<open>compressToolOutput\<close>
  has \<open>compressed\<close> of at most 2000 characters, \<open>wasCompressed\<close> true and \<open>originalSize\<close>
  the length of the output; \<open>compressed\<close> is the rendered text itself when that has at
  most 2000 characters, and otherwise its first 1980 characters followed by the marker.
  The only exceptions are those of the renderer. A result is returned for every tool
  but \<open>Glob\<close> whenever each property of the tool input is absent or a string.
\<close>

theorem compress_ceiling:
  assumes big: "length output > 3000"
  shows "(case compressToolOutput P toolName toolInput output of
            Inl e \<Rightarrow> renderTool P toolName toolInput output = Inl e
          | Inr r \<Rightarrow>
              length (compressed r) \<le> 2000 \<and> wasCompressed r
              \<and> originalSize r = length output
              \<and> (\<exists>rendered. renderTool P toolName toolInput output = Inr rendered
                    \<and> compressed r =
                        (if length rendered \<le> 2000 then rendered
                         else take 1980 rendered @ (0x0A # lit ''... (compressed)''))))
         \<and> (toolName \<noteq> lit ''Glob'' \<longrightarrow>
              (\<forall>k. getProp toolInput k = None \<or> (\<exists>s. getProp toolInput k = Some (JStr s))) \<longrightarrow>
              (\<exists>r. compressToolOutput P toolName toolInput output = Inr r))"
proof -
  have c: "compressToolOutput P toolName toolInput output
           = bindE (renderTool P toolName toolInput output) (\<lambda>rendered.
               Inr \<lparr> compressed = truncateToTarget rendered, wasCompressed = True,
                     originalSize = length output \<rparr>)"
    using big by (simp add: compressToolOutput_def COMPRESSION_THRESHOLD_def)
  have t: "truncateToTarget rendered
           = (if length rendered \<le> 2000 then rendered
              else take 1980 rendered @ (0x0A # lit ''... (compressed)''))" for rendered
    by (simp add: truncateToTarget_def TARGET_COMPRESSED_SIZE_def)
  have first: "case compressToolOutput P toolName toolInput output of
            Inl e \<Rightarrow> renderTool P toolName toolInput output = Inl e
          | Inr r \<Rightarrow>
              length (compressed r) \<le> 2000 \<and> wasCompressed r
              \<and> originalSize r = length output
              \<and> (\<exists>rendered. renderTool P toolName toolInput output = Inr rendered
                    \<and> compressed r =
                        (if length rendered \<le> 2000 then rendered
                         else take 1980 rendered @ (0x0A # lit ''... (compressed)'')))"
  proof (cases "renderTool P toolName toolInput output")
    case (Inl e)
    then show ?thesis by (simp add: c bindE_def)
  next
    case (Inr rendered)
    then show ?thesis using truncateToTarget_le[of rendered] t[of rendered]
      by (simp add: c bindE_def)
  qed
  have second: "toolName \<noteq> lit ''Glob'' \<longrightarrow>
              (\<forall>k. getProp toolInput k = None \<or> (\<exists>s. getProp toolInput k = Some (JStr s))) \<longrightarrow>
              (\<exists>r. compressToolOutput P toolName toolInput output = Inr r)"
  proof (intro impI)
    assume "toolName \<noteq> lit ''Glob''"
      and "\<forall>k. getProp toolInput k = None \<or> (\<exists>s. getProp toolInput k = Some (JStr s))"
    then obtain rendered where "renderTool P toolName toolInput output = Inr rendered"
      using renderTool_returns by blast
    then show "\<exists>r. compressToolOutput P toolName toolInput output = Inr r"
      by (simp add: c bindE_def)
  qed
  from first second show ?thesis by blast
qed

theorem compress_ceiling_witness:
  "length (replicate 3001 (0x61 :: jschar)) > 3000
   \<and> (\<exists>r. compressToolOutput asciiPlatform (lit ''Task'') None (replicate 3001 0x61) = Inr r
          \<and> length (compressed r) \<le> 2000 \<and> wasCompressed r \<and> originalSize r = 3001)"
proof -
  have big: "length (replicate 3001 (0x61 :: jschar)) > 3000" by simp
  have ne: "lit ''Task'' \<noteq> lit ''Glob''" by (simp add: lit_def)
  have props: "\<forall>k. getProp None k = None \<or> (\<exists>s. getProp None k = Some (JStr s))" by simp
  note th = compress_ceiling [OF big, of asciiPlatform "lit ''Task''" None]
  from th ne props obtain r
    where r: "compressToolOutput asciiPlatform (lit ''Task'') None (replicate 3001 0x61) = Inr r"
    by blast
  with th have "length (compressed r) \<le> 2000 \<and> wasCompressed r \<and> originalSize r = 3001"
    by simp
  with r big show ?thesis by blast
qed

section \<open>The extractors\<close>

text \<open>
  C9, as stated, fails for the marker extractor: on eleven identical \<open>// TODO\<close> lines
  it returns ten entries, all equal. It neither removes duplicates nor returns every
  matching line.
\<close>

theorem extractors_counterexample:
  "extractErrorPatterns (joinStr [0x0A] (replicate 11 (lit ''// TODO'')))
     = replicate 10 (lit ''// TODO'')
   \<and> \<not> distinct (extractErrorPatterns (joinStr [0x0A] (replicate 11 (lit ''// TODO''))))
   \<and> length (filter hasMarker (splitOn 0x0A (joinStr [0x0A] (replicate 11 (lit ''// TODO''))))) = 11"
  by code_simp

text \<open>
  C9, amended. Each of the four pattern-based extractors (imports, exports, function
  signatures, class names) returns the values its patterns matched with duplicates
  removed, in the order of their first occurrence, and leaves none out. The marker
  extractor returns the lines that hold a marker, trimmed and cut to 100 characters, in
  line order, duplicates kept, and only the first ten of them.
\<close>

theorem extractors_amended:
  "extractImports P code
     = rev (remdups (rev (matchesInOrder P pickImport [ImportFrom, FromImport, RequireCall, UsePath] code)))
   \<and> extractExports P code
     = rev (remdups (rev (matchesInOrder P pickExport [ExportDecl, ExportList, PubItem] code)))
   \<and> extractFunctionSignatures P code
     = rev (remdups (rev (matchesInOrder P pickGroup1
          [FunctionDecl, ArrowProperty, ArrowBinding, FnItem, DefItem] code)))
   \<and> extractClassNames P code
     = rev (remdups (rev (matchesInOrder P pickGroup1
          [ClassDecl, StructDecl, InterfaceDecl, TypeAlias] code)))
   \<and> distinct (extractImports P code) \<and> distinct (extractExports P code)
   \<and> distinct (extractFunctionSignatures P code) \<and> distinct (extractClassNames P code)
   \<and> set (extractImports P code)
     = set (matchesInOrder P pickImport [ImportFrom, FromImport, RequireCall, UsePath] code)
   \<and> set (extractExports P code)
     = set (matchesInOrder P pickExport [ExportDecl, ExportList, PubItem] code)
   \<and> set (extractFunctionSignatures P code)
     = set (matchesInOrder P pickGroup1
          [FunctionDecl, ArrowProperty, ArrowBinding, FnItem, DefItem] code)
   \<and> set (extractClassNames P code)
     = set (matchesInOrder P pickGroup1 [ClassDecl, StructDecl, InterfaceDecl, TypeAlias] code)
   \<and> extractErrorPatterns code
     = take 10 (map (\<lambda>l. take 100 (trimStr l)) (filter hasMarker (splitOn 0x0A code)))"
proof -
  have s: "newSet (scanPatterns P pick rs code []) = rev (remdups (rev (matchesInOrder P pick rs code)))"
    for pick :: "rmatch \<Rightarrow> 'b list" and rs
    by (simp only: newSet_eq scanPatterns_eq matchesInOrder_def append_Nil)
  have d: "distinct (rev (remdups (rev xs)))" for xs :: "'b list" by simp
  have e: "set (rev (remdups (rev xs))) = set xs" for xs :: "'b list" by simp
  have m: "extractErrorPatterns code
     = take 10 (map (\<lambda>l. take 100 (trimStr l)) (filter hasMarker (splitOn 0x0A code)))"
    by (simp add: extractErrorPatterns_def collectMarkers_eq)
  show ?thesis
    unfolding extractImports_def extractExports_def extractFunctionSignatures_def
      extractClassNames_def s
    using d e m by simp
qed


section \<open>The context assembler\<close>

lemma contextLoop_char:
  "contextLoop m obs (parts, c) = (parts', c') \<Longrightarrow>
   \<exists>n\<le>length obs.
      parts' = parts @ map obsText (take n obs)
      \<and> c' = c + sum_list (map (\<lambda>ob. estimateTokens (obsText ob)) (take n obs))
      \<and> (n < length obs \<longrightarrow> int (c' + estimateTokens (obsText (obs ! n))) > m)"
proof (induction obs arbitrary: parts c)
  case Nil
  then show ?case by simp
next
  case (Cons ob rest)
  show ?case
  proof (cases "int (c + estimateTokens (obsText ob)) > m")
    case True
    with Cons.prems have "parts' = parts" "c' = c" by (simp_all add: Let_def)
    with True show ?thesis by (intro exI[of _ 0]) simp
  next
    case False
    with Cons.prems
    have "contextLoop m rest (parts @ [obsText ob], c + estimateTokens (obsText ob)) = (parts', c')"
      by (simp add: Let_def)
    from Cons.IH[OF this] obtain n where n: "n \<le> length rest"
      "parts' = (parts @ [obsText ob]) @ map obsText (take n rest)"
      "c' = c + estimateTokens (obsText ob)
            + sum_list (map (\<lambda>ob. estimateTokens (obsText ob)) (take n rest))"
      "n < length rest \<longrightarrow> int (c' + estimateTokens (obsText (rest ! n))) > m"
      by blast
    then show ?thesis by (intro exI[of _ "Suc n"]) simp
  qed
qed

lemma contextLoop_budget:
  "contextLoop m obs (parts, c) = (parts', c') \<Longrightarrow> int c \<le> m \<Longrightarrow> int c' \<le> m"
proof (induction obs arbitrary: parts c)
  case Nil
  then show ?case by simp
next
  case (Cons ob rest)
  show ?case
  proof (cases "int (c + estimateTokens (obsText ob)) > m")
    case True
    with Cons.prems show ?thesis by (simp add: Let_def)
  next
    case False
    with Cons.prems
    have "contextLoop m rest (parts @ [obsText ob], c + estimateTokens (obsText ob)) = (parts', c')"
      by (simp add: Let_def)
    from Cons.IH[OF this] False show ?thesis by simp
  qed
qed

lemma getContext_tokenCount:
  "tokenCount (getContext config store query)
   = snd (contextLoop (maxContextTokens config) (timeline store (maxContextObservations config)) ([], 0))"
  by (simp add: getContext_def Let_def split: prod.splits)

lemma sum_list_const: "(\<forall>x\<in>set xs. f x = (k::nat)) \<Longrightarrow> sum_list (map f xs) = k * length xs"
  by (induction xs) simp_all

lemma sample_estimate: "estimateTokens (obsText sampleObservation) = 50"
  by (simp add: estimateTokens_def obsText_def sampleObservation_def lit_def)

text \<open>
  C4. For a non-negative budget the reported \<open>tokenCount\<close> never exceeds the budget. It
  is the sum of the estimates of the observations counted, a prefix of the recent list,
  and when an observation is left after that prefix, adding its estimate would exceed
  the budget. With 30 observations of 50 tokens each and a budget of 220, exactly 4 are
  counted and \<open>tokenCount\<close> is 200.
\<close>

theorem token_budget:
  assumes nonneg: "0 \<le> maxContextTokens config"
  shows "let recent = timeline store (maxContextObservations config);
             ctx = getContext config store query;
             counted = length (fst (contextLoop (maxContextTokens config) recent ([], 0)))
         in int (tokenCount ctx) \<le> maxContextTokens config
            \<and> counted \<le> length recent
            \<and> tokenCount ctx
                = sum_list (map (\<lambda>ob. estimateTokens (obsText ob)) (take counted recent))
            \<and> (counted < length recent \<longrightarrow>
                 int (tokenCount ctx + estimateTokens (obsText (recent ! counted)))
                 > maxContextTokens config)
            \<and> (length recent = 30 \<and> (\<forall>ob\<in>set recent. estimateTokens (obsText ob) = 50)
                 \<and> maxContextTokens config = 220 \<longrightarrow>
                 counted = 4 \<and> tokenCount ctx = 200)"
proof -
  define recent where "recent = timeline store (maxContextObservations config)"
  define m where "m = maxContextTokens config"
  obtain parts c where loop: "contextLoop m recent ([], 0) = (parts, c)"
    by (cases "contextLoop m recent ([], 0)") blast
  have tc: "tokenCount (getContext config store query) = c"
    using loop by (simp add: getContext_tokenCount recent_def m_def)
  from contextLoop_char[OF loop] obtain n where n: "n \<le> length recent"
    "parts = map obsText (take n recent)"
    "c = sum_list (map (\<lambda>ob. estimateTokens (obsText ob)) (take n recent))"
    "n < length recent \<longrightarrow> int (c + estimateTokens (obsText (recent ! n))) > m"
    by auto
  have cnt: "length parts = n" using n(1,2) by simp
  have le: "int c \<le> m" using contextLoop_budget[OF loop] nonneg by (simp add: m_def)
  have ex: "n = 4 \<and> c = 200"
    if h: "length recent = 30" "\<forall>ob\<in>set recent. estimateTokens (obsText ob) = 50" "m = 220"
  proof -
    have "\<forall>ob\<in>set (take n recent). estimateTokens (obsText ob) = 50"
      using h(2) by (meson in_set_takeD)
    then have c50: "c = 50 * n" using n(1,3) sum_list_const[of "take n recent"] by simp
    have "n \<le> 4" using le c50 h(3) by simp
    moreover have "n \<ge> 4"
    proof -
      have lt: "n < length recent" using \<open>n \<le> 4\<close> h(1) by simp
      then have "recent ! n \<in> set recent" by simp
      then have "estimateTokens (obsText (recent ! n)) = 50" using h(2) by blast
      with n(4) lt c50 h(3) show ?thesis by simp
    qed
    ultimately show ?thesis using c50 by simp
  qed
  show ?thesis
    unfolding Let_def recent_def[symmetric] m_def[symmetric] tc loop fst_conv cnt
    using le n(1,3,4) ex by blast
qed


theorem token_budget_witness:
  "0 \<le> maxContextTokens sampleConfig
   \<and> length (timeline sampleStore (maxContextObservations sampleConfig)) = 30
   \<and> tokenCount (getContext sampleConfig sampleStore None) = 200
   \<and> length (fst (contextLoop (maxContextTokens sampleConfig)
                    (timeline sampleStore (maxContextObservations sampleConfig)) ([], 0))) = 4"
proof -
  have nonneg: "0 \<le> maxContextTokens sampleConfig"
    by (simp add: sampleConfig_def DEFAULT_CONFIG_def)
  have recent: "timeline sampleStore (maxContextObservations sampleConfig)
                = replicate 30 sampleObservation"
    by (simp add: sampleConfig_def DEFAULT_CONFIG_def sampleStore_def)
  have all50: "\<forall>ob\<in>set (replicate 30 sampleObservation). estimateTokens (obsText ob) = 50"
    by (simp add: sample_estimate)
  have m: "maxContextTokens sampleConfig = 220"
    by (simp add: sampleConfig_def DEFAULT_CONFIG_def)
  note th = token_budget [OF nonneg, of sampleStore None, unfolded Let_def recent m]
  then have imp:
    "length (replicate 30 sampleObservation) = 30
     \<and> (\<forall>ob\<in>set (replicate 30 sampleObservation). estimateTokens (obsText ob) = 50)
     \<and> (220::int) = 220 \<longrightarrow>
     length (fst (contextLoop 220 (replicate 30 sampleObservation) ([], 0))) = 4
     \<and> tokenCount (getContext sampleConfig sampleStore None) = 200"
    by blast
  have len: "length (replicate 30 sampleObservation) = 30" by simp
  from imp len all50
  have "length (fst (contextLoop 220 (replicate 30 sampleObservation) ([], 0))) = 4
        \<and> tokenCount (getContext sampleConfig sampleStore None) = 200"
    by blast
  then show ?thesis using nonneg len unfolding recent m by blast
qed

text \<open>
  C7. The context holds the whole list the store returned, \<open>sessionSummaries\<close> is empty,
  and changing the token budget changes nothing in the context but \<open>tokenCount\<close>.
\<close>

theorem context_frame:
  "recentObservations (getContext config store query) = timeline store (maxContextObservations config)
   \<and> sessionSummaries (getContext config store query) = []
   \<and> getContext (config \<lparr> maxContextTokens := m \<rparr>) store query
     = (getContext config store query)
         \<lparr> tokenCount := tokenCount (getContext (config \<lparr> maxContextTokens := m \<rparr>) store query) \<rparr>"
  by (simp add: getContext_def Let_def split: prod.splits)

theorem context_frame_witness:
  "recentObservations (getContext sampleConfig sampleStore None) = replicate 30 sampleObservation
   \<and> sessionSummaries (getContext sampleConfig sampleStore None) = []
   \<and> getContext (sampleConfig \<lparr> maxContextTokens := 0 \<rparr>) sampleStore None
     = (getContext sampleConfig sampleStore None) \<lparr> tokenCount := 0 \<rparr>"
proof -
  have recent: "timeline sampleStore (maxContextObservations sampleConfig)
                = replicate 30 sampleObservation"
    by (simp add: sampleConfig_def DEFAULT_CONFIG_def sampleStore_def)
  have first: "replicate 30 sampleObservation = sampleObservation # replicate 29 sampleObservation"
    by (simp add: replicate_Suc[symmetric] del: replicate_Suc)
  have zero: "tokenCount (getContext (sampleConfig \<lparr> maxContextTokens := 0 \<rparr>) sampleStore None) = 0"
    unfolding getContext_tokenCount
    by (simp add: sampleConfig_def DEFAULT_CONFIG_def sampleStore_def first sample_estimate Let_def)
  show ?thesis
    using context_frame [of sampleConfig sampleStore None 0] recent zero by simp
qed


section \<open>The session synthesizer\<close>

lemma setAddAll_append: "setAddAll (xs @ ys) seen = setAddAll ys (setAddAll xs seen)"
  by (induction xs arbitrary: seen) simp_all

lemma scanObservations_eq:
  "scanObservations P obs (kd, fm)
   = (kd @ map summary (filter (isDecision P) obs),
      setAddAll (concat (map (\<lambda>ob. case metadataFiles ob of None \<Rightarrow> [] | Some fs \<Rightarrow> fs) obs)) fm)"
  by (induction obs arbitrary: kd fm) (simp_all add: setAddAll_append split: option.splits)

lemma sample_keyDecisions: "keyDecisions (generateSessionSummary asciiPlatform sessionObservations None)
          = [lit ''Chose Postgres over MySQL'']"
  by code_simp

lemma sample_filesModified: "filesModified (generateSessionSummary asciiPlatform sessionObservations None)
          = [lit ''a.ts'', lit ''b.ts'']"
  by code_simp


text \<open>
  C6. \<open>keyDecisions\<close> holds, in order, the summaries of the observations whose type is
  \<open>decision\<close> or whose lower-cased summary contains \<open>chose\<close> or \<open>decided\<close>, cut to the
  first 10. \<open>filesModified\<close> holds the files of every observation's metadata, followed by
  the paths mined from the transcript, without duplicates and in the order of first
  occurrence, cut to the first 20. For the four sample observations the result has the
  one decision and exactly the files \<open>a.ts\<close> and \<open>b.ts\<close>.
\<close>

theorem session_summary:
  "keyDecisions (generateSessionSummary P observations transcript)
     = take 10 (map summary (filter (\<lambda>ob.
         type ob = lit ''decision''
         \<or> includesStr (toLowerCase P (summary ob)) (lit ''chose'')
         \<or> includesStr (toLowerCase P (summary ob)) (lit ''decided'')) observations))
   \<and> filesModified (generateSessionSummary P observations transcript)
     = take 20 (rev (remdups (rev
         (concat (map (\<lambda>ob. case metadataFiles ob of None \<Rightarrow> [] | Some fs \<Rightarrow> fs) observations)
          @ transcriptPaths P transcript))))
   \<and> length (keyDecisions (generateSessionSummary P observations transcript)) \<le> 10
   \<and> length (filesModified (generateSessionSummary P observations transcript)) \<le> 20
   \<and> length sessionObservations = 4
   \<and> keyDecisions (generateSessionSummary asciiPlatform sessionObservations None)
     = [lit ''Chose Postgres over MySQL'']
   \<and> filesModified (generateSessionSummary asciiPlatform sessionObservations None)
     = [lit ''a.ts'', lit ''b.ts'']"
proof -
  have f: "(\<lambda>ob. type ob = lit ''decision''
         \<or> includesStr (toLowerCase P (summary ob)) (lit ''chose'')
         \<or> includesStr (toLowerCase P (summary ob)) (lit ''decided'')) = isDecision P"
    by (auto simp: isDecision_def)
  have kd: "keyDecisions (generateSessionSummary P observations transcript)
            = take 10 (map summary (filter (isDecision P) observations))"
    by (simp add: generateSessionSummary_def scanObservations_eq Let_def)
  have "filesModified (generateSessionSummary P observations transcript)
     = take 20 (setAddAll (transcriptPaths P transcript)
         (setAddAll (concat (map (\<lambda>ob. case metadataFiles ob of None \<Rightarrow> [] | Some fs \<Rightarrow> fs)
            observations)) []))"
    by (simp add: generateSessionSummary_def scanObservations_eq Let_def)
  also have "\<dots> = take 20 (newSet
         (concat (map (\<lambda>ob. case metadataFiles ob of None \<Rightarrow> [] | Some fs \<Rightarrow> fs) observations)
          @ transcriptPaths P transcript))"
    by (simp only: setAddAll_append newSet_def)
  finally have fm: "filesModified (generateSessionSummary P observations transcript)
     = take 20 (rev (remdups (rev
         (concat (map (\<lambda>ob. case metadataFiles ob of None \<Rightarrow> [] | Some fs \<Rightarrow> fs) observations)
          @ transcriptPaths P transcript))))"
    by (simp only: newSet_eq)
  have len: "length sessionObservations = 4" by (simp add: sessionObservations_def)
  show ?thesis unfolding f using kd fm len sample_keyDecisions sample_filesModified by (simp del: rev_append)
qed

theorem session_summary_witness:
  "keyDecisions (generateSessionSummary asciiPlatform sessionObservations None)
     = [lit ''Chose Postgres over MySQL'']
   \<and> set (filesModified (generateSessionSummary asciiPlatform sessionObservations None))
     = {lit ''a.ts'', lit ''b.ts''}"
proof -
  note th = session_summary [of asciiPlatform sessionObservations None]
  from th have a: "keyDecisions (generateSessionSummary asciiPlatform sessionObservations None)
                   = [lit ''Chose Postgres over MySQL'']"
    by blast
  from th have b: "filesModified (generateSessionSummary asciiPlatform sessionObservations None)
                   = [lit ''a.ts'', lit ''b.ts'']"
    by blast
  show ?thesis unfolding b using a by simp
qed


section \<open>The post-tool-use hook\<close>

text \<open>
  What the summary generator does when a field is absent: the captions for \<open>Read\<close>,
  \<open>Edit\<close>, \<open>Write\<close> and \<open>Bash\<close> use the placeholders \<open>file\<close> and \<open>command\<close>, and a tool the
  generator does not know gets \<open>{toolName} completed\<close>.
\<close>

lemma generateSummary_fallbacks:
  "getProp toolInput (lit ''file_path'') = None \<Longrightarrow>
     generateSummary P (lit ''Read'') toolInput out
       = Inr (lit ''Read file ('' @ showNat (length (splitOn 0x0A out)) @ lit '' lines)'')
     \<and> generateSummary P (lit ''Edit'') toolInput out = Inr (lit ''Edited file'')
     \<and> generateSummary P (lit ''Write'') toolInput out = Inr (lit ''Created file'')"
  "getProp toolInput (lit ''command'') = None \<Longrightarrow>
     generateSummary P (lit ''Bash'') toolInput out = Inr (lit ''Ran: command'')
     \<or> generateSummary P (lit ''Bash'') toolInput out = Inr (lit ''Command failed: command'')"
  "toolName \<notin> set [lit ''Read'', lit ''Edit'', lit ''Write'', lit ''Bash'', lit ''Grep'',
                     lit ''Glob'', lit ''WebFetch'', lit ''WebSearch''] \<Longrightarrow>
     generateSummary P toolName toolInput out = Inr (toolName @ lit '' completed'')"
  by (simp_all add: generateSummary_def summaryFileName_def bindE_def orStr_def lit_def Let_def)


text \<open>
  C8. For a \<open>Grep\<close> event whose input has no \<open>pattern\<close>, the caption is
  \<open>Found 1 matches for "undefined"\<close>: the generator does not fall back to the placeholder
  \<open>pattern\<close>.
\<close>

theorem summary_pattern_placeholder_missing:
  "generateSummary P (lit ''Grep'') (Some (JObj [])) (lit ''src/a.ts:1:x'')
   = Inr (lit ''Found 1 matches for '' @ [0x22] @ lit ''undefined'' @ [0x22])"
  by (simp add: generateSummary_def bindE_def lit_def showNat.simps)

lemma not_includes_replicate:
  assumes "c \<in> set n" "c \<noteq> a"
  shows "\<not> includesStr (replicate k a) n"
proof
  assume "includesStr (replicate k a) n"
  with assms have "c \<in> set (replicate k a)" using includesStr_set by blast
  with assms(2) show False by (simp add: in_set_replicate)
qed

text \<open>
  C1. For the \<open>Bash\<close> event with an output of 2501 characters, the stored content is the
  first 2500 characters followed by the marker of 17 characters: 2517 characters, more
  than \<open>MAX_OUTPUT_LENGTH\<close>.
\<close>

theorem content_exceeds_maximum:
  "\<exists>r. stored (main (parsingPlatform longOutputEvent) storeReady input) = Some r
        \<and> rContent r = replicate 2500 0x61 @ (0x0A # lit ''... (compressed)'')
        \<and> length (rContent r) = 2517
        \<and> MAX_OUTPUT_LENGTH = 2500"
proof -
  have n1: "\<not> includesStr (replicate 2501 (0x61::jschar)) (lit ''<system-reminder>'')"
    by (rule not_includes_replicate[of "0x3C"]) (simp_all add: lit_def)
  have n2: "\<not> includesStr (replicate 2501 (0x61::jschar)) (lit ''<memvid-mind-context>'')"
    by (rule not_includes_replicate[of "0x3C"]) (simp_all add: lit_def)
  have eff: "effectiveOutputOf (lit ''Bash'') ti (Some (replicate 2501 0x61))
             = Inr (replicate 2501 0x61)" for ti
    by (simp add: effectiveOutputOf_def ALWAYS_CAPTURE_TOOLS_def orStr_def lit_def Let_def)
  have cmp: "compressToolOutput P (lit ''Bash'') ti (replicate 2501 0x61)
             = Inr \<lparr> compressed = replicate 2501 0x61, wasCompressed = False,
                     originalSize = 2501 \<rparr>" for P ti
    by (simp add: compressToolOutput_def COMPRESSION_THRESHOLD_def)
  have sm: "\<exists>s. generateSummary P (lit ''Bash'')
                 (Some (JObj [(lit ''command'', JStr (lit ''ls -la''))])) out = Inr s" for P out
    by (simp add: generateSummary_def bindE_def lit_def Let_def)
  have md: "\<exists>m. extractMetadata (lit ''Bash'')
                 (Some (JObj [(lit ''command'', JStr (lit ''ls -la''))])) = Inr m"
    by (simp add: extractMetadata_def truthyOpt_def bindE_def lit_def)
  have props:
    "getProp (Some longOutputEvent) (lit ''tool_name'') = Some (JStr (lit ''Bash''))"
    "getProp (Some longOutputEvent) (lit ''tool_input'')
       = Some (JObj [(lit ''command'', JStr (lit ''ls -la''))])"
    "getProp (Some longOutputEvent) (lit ''tool_response'') = Some (JStr (replicate 2501 0x61))"
    by (simp_all add: longOutputEvent_def lit_def)
  have obs: "lit ''Bash'' \<in> set OBSERVED_TOOLS" "lit ''Bash'' \<notin> set ALWAYS_CAPTURE_TOOLS"
    by (simp_all add: OBSERVED_TOOLS_def ALWAYS_CAPTURE_TOOLS_def lit_def)
  have nn: "longOutputEvent \<noteq> JNull" by (simp add: longOutputEvent_def)
  obtain s where s: "generateSummary (parsingPlatform longOutputEvent) (lit ''Bash'')
                 (Some (JObj [(lit ''command'', JStr (lit ''ls -la''))])) (replicate 2501 0x61) = Inr s"
    using sm by blast
  obtain m where m: "extractMetadata (lit ''Bash'')
                 (Some (JObj [(lit ''command'', JStr (lit ''ls -la''))])) = Inr m"
    using md by blast
  have "observeTool (parsingPlatform longOutputEvent) storeReady longOutputEvent
        = Inr (Some \<lparr> rType = classifyObservationType (parsingPlatform longOutputEvent)
                                 (lit ''Bash'') (replicate 2501 0x61),
                       rSummary = s,
                       rContent = replicate 2500 0x61 @ (0x0A # lit ''... (compressed)''),
                       rTool = lit ''Bash'',
                       rMetadata = m \<rparr>)"
    unfolding observeTool_def
    by (simp add: nn props obs toolOutputOf_def eff n1 n2 cmp s m bindE_def Let_def
          MIN_OUTPUT_LENGTH_def MAX_OUTPUT_LENGTH_def storeReady_def)
  then show ?thesis
    by (simp add: main_def parsingPlatform_def asciiPlatform_def MAX_OUTPUT_LENGTH_def lit_def)
qed


lemma effectiveOutputOf_cases:
  assumes "effectiveOutputOf name tool_input tool_output = Inr effectiveOutput"
  shows "if name \<in> set ALWAYS_CAPTURE_TOOLS \<and> length (orStr tool_output []) < 50
         then \<exists>fileName filePath.
                effectiveOutput = lit ''File modified: '' @ fileName @ [0x0A] @ lit ''Path: ''
                                  @ filePath @ [0x0A] @ lit ''Tool: '' @ name
         else effectiveOutput = orStr tool_output []"
  using assms
  by (auto simp: effectiveOutputOf_def MIN_OUTPUT_LENGTH_def bindE_def Let_def
           split: if_splits sum.splits)

lemma observeTool_stored:
  assumes "observeTool P mind hookInput = Inr (Some r)"
  shows "\<exists>name effectiveOutput.
           getProp (Some hookInput) (lit ''tool_name'') = Some (JStr name)
           \<and> name \<in> set OBSERVED_TOOLS
           \<and> (name \<in> set ALWAYS_CAPTURE_TOOLS
                \<or> (\<exists>out. toolOutputOf P (getProp (Some hookInput) (lit ''tool_response'')) = Some out
                          \<and> 50 \<le> length out))
           \<and> effectiveOutputOf name (getProp (Some hookInput) (lit ''tool_input''))
                (toolOutputOf P (getProp (Some hookInput) (lit ''tool_response''))) = Inr effectiveOutput
           \<and> \<not> includesStr effectiveOutput (lit ''<system-reminder>'')
           \<and> \<not> includesStr effectiveOutput (lit ''<memvid-mind-context>'')
           \<and> rTool r = name"
proof -
  from assms have nn: "hookInput \<noteq> JNull"
    by (auto simp: observeTool_def split: if_splits)
  from assms nn obtain name where name:
    "getProp (Some hookInput) (lit ''tool_name'') = Some (JStr name)"
    by (auto simp: observeTool_def Let_def split: option.splits json.splits)
  define out where "out = toolOutputOf P (getProp (Some hookInput) (lit ''tool_response''))"
  define ti where "ti = getProp (Some hookInput) (lit ''tool_input'')"
  from assms nn name have obs: "name \<in> set OBSERVED_TOOLS"
    by (auto simp: observeTool_def Let_def split: if_splits)
  from assms nn name obs have gate:
    "name \<in> set ALWAYS_CAPTURE_TOOLS \<or> (\<exists>t. out = Some t \<and> 50 \<le> length t)"
    by (auto simp: observeTool_def Let_def out_def MIN_OUTPUT_LENGTH_def
             split: if_splits option.splits)
  then have ng: "\<not> (name \<notin> set ALWAYS_CAPTURE_TOOLS
                    \<and> (case out of None \<Rightarrow> True | Some t \<Rightarrow> t = [] \<or> length t < MIN_OUTPUT_LENGTH))"
    by (auto simp: MIN_OUTPUT_LENGTH_def)
  from assms nn name obs ng
  have body: "bindE (effectiveOutputOf name ti out) (\<lambda>effectiveOutput.
                if includesStr effectiveOutput (lit ''<system-reminder>'')
                   \<or> includesStr effectiveOutput (lit ''<memvid-mind-context>'')
                then Inr None
                else bindE (compressToolOutput P name ti effectiveOutput) (\<lambda>c.
                       if \<not> opens mind then Inl StoreFailure
                       else bindE (generateSummary P name ti effectiveOutput) (\<lambda>summary.
                              bindE (extractMetadata name ti) (\<lambda>metadata0.
                                if \<not> accepts mind then Inl StoreFailure
                                else Inr (Some \<lparr> rType = classifyObservationType P name (compressed c),
                                                  rSummary = summary,
                                                  rContent =
                                                    (if length (compressed c) > MAX_OUTPUT_LENGTH
                                                     then take MAX_OUTPUT_LENGTH (compressed c)
                                                          @ (0x0A # lit ''... (compressed)'')
                                                     else compressed c),
                                                  rTool = name,
                                                  rMetadata =
                                                    (if wasCompressed c
                                                     then metadata0
                                                          @ [(lit ''compressed'', JBool True),
                                                             (lit ''originalSize'', JNum (real (originalSize c))),
                                                             (lit ''compressedSize'',
                                                              JNum (real (length (compressed c))))]
                                                     else metadata0) \<rparr>)))))
              = Inr (Some r)"
    unfolding observeTool_def out_def ti_def Let_def by simp
  then obtain eff where eff: "effectiveOutputOf name ti out = Inr eff"
    by (cases "effectiveOutputOf name ti out") (simp_all add: bindE_def)
  from body eff have nm: "\<not> includesStr eff (lit ''<system-reminder>'')"
    "\<not> includesStr eff (lit ''<memvid-mind-context>'')"
    by (auto simp: bindE_def split: if_splits)
  from body eff nm have "rTool r = name"
    by (auto simp: bindE_def split: if_splits sum.splits)
  with name obs gate eff nm show ?thesis unfolding out_def ti_def by blast
qed


lemma shortEdit_stored:
  "stored (main (parsingPlatform shortEditEvent) storeReady [])
   = Some \<lparr> rType = Refactor, rSummary = lit ''Edited app.ts'',
            rContent = lit ''File modified: app.ts'' @ [0x0A] @ lit ''Path: /src/app.ts''
                       @ [0x0A] @ lit ''Tool: Edit'',
            rTool = lit ''Edit'',
            rMetadata = [(lit ''files'', JArr [JStr (lit ''/src/app.ts'')])] \<rparr>"
  by code_simp

text \<open>
  C10. The hook always writes \<open>continue: true\<close>. Whenever it stores an observation, the
  input parsed, the tool name is one of \<open>OBSERVED_TOOLS\<close>, the tool is always captured or
  its output has at least 50 characters, and the effective output contains neither
  \<open><system-reminder>\<close> nor \<open><memvid-mind-context>\<close>. The effective output is the
  synthetic \<open>File modified\<close> body when the tool is always captured and its output is
  shorter than 50 characters, and the tool's output otherwise.
\<close>

theorem hook_gating:
  "continue (written (main P mind input))
   \<and> (\<forall>r. stored (main P mind input) = Some r \<longrightarrow>
        (\<exists>hookInput name effectiveOutput.
            jsonParse P input = Some hookInput
            \<and> getProp (Some hookInput) (lit ''tool_name'') = Some (JStr name)
            \<and> name \<in> set OBSERVED_TOOLS
            \<and> (name \<in> set ALWAYS_CAPTURE_TOOLS
                 \<or> (\<exists>out. toolOutputOf P (getProp (Some hookInput) (lit ''tool_response'')) = Some out
                           \<and> 50 \<le> length out))
            \<and> effectiveOutputOf name (getProp (Some hookInput) (lit ''tool_input''))
                 (toolOutputOf P (getProp (Some hookInput) (lit ''tool_response'')))
               = Inr effectiveOutput
            \<and> (if name \<in> set ALWAYS_CAPTURE_TOOLS
                    \<and> length (orStr (toolOutputOf P (getProp (Some hookInput) (lit ''tool_response''))) []) < 50
                then \<exists>fileName filePath.
                       effectiveOutput = lit ''File modified: '' @ fileName @ [0x0A] @ lit ''Path: ''
                                         @ filePath @ [0x0A] @ lit ''Tool: '' @ name
                else toolOutputOf P (getProp (Some hookInput) (lit ''tool_response''))
                       = Some effectiveOutput
                     \<and> 50 \<le> length effectiveOutput)
            \<and> \<not> includesStr effectiveOutput (lit ''<system-reminder>'')
            \<and> \<not> includesStr effectiveOutput (lit ''<memvid-mind-context>'')
            \<and> rTool r = name))"
proof -
  have cont: "continue (written (main P mind input))"
    by (simp add: main_def split: option.splits sum.splits)
  have st: "\<exists>hookInput name effectiveOutput.
            jsonParse P input = Some hookInput
            \<and> getProp (Some hookInput) (lit ''tool_name'') = Some (JStr name)
            \<and> name \<in> set OBSERVED_TOOLS
            \<and> (name \<in> set ALWAYS_CAPTURE_TOOLS
                 \<or> (\<exists>out. toolOutputOf P (getProp (Some hookInput) (lit ''tool_response'')) = Some out
                           \<and> 50 \<le> length out))
            \<and> effectiveOutputOf name (getProp (Some hookInput) (lit ''tool_input''))
                 (toolOutputOf P (getProp (Some hookInput) (lit ''tool_response'')))
               = Inr effectiveOutput
            \<and> (if name \<in> set ALWAYS_CAPTURE_TOOLS
                    \<and> length (orStr (toolOutputOf P (getProp (Some hookInput) (lit ''tool_response''))) []) < 50
                then \<exists>fileName filePath.
                       effectiveOutput = lit ''File modified: '' @ fileName @ [0x0A] @ lit ''Path: ''
                                         @ filePath @ [0x0A] @ lit ''Tool: '' @ name
                else toolOutputOf P (getProp (Some hookInput) (lit ''tool_response''))
                       = Some effectiveOutput
                     \<and> 50 \<le> length effectiveOutput)
            \<and> \<not> includesStr effectiveOutput (lit ''<system-reminder>'')
            \<and> \<not> includesStr effectiveOutput (lit ''<memvid-mind-context>'')
            \<and> rTool r = name"
    if r: "stored (main P mind input) = Some r" for r
  proof -
    from r obtain hookInput where p: "jsonParse P input = Some hookInput"
      and o: "observeTool P mind hookInput = Inr (Some r)"
      by (auto simp: main_def split: option.splits sum.splits)
    define out where "out = toolOutputOf P (getProp (Some hookInput) (lit ''tool_response''))"
    from observeTool_stored[OF o] obtain name eff where f:
      "getProp (Some hookInput) (lit ''tool_name'') = Some (JStr name)"
      "name \<in> set OBSERVED_TOOLS"
      "name \<in> set ALWAYS_CAPTURE_TOOLS \<or> (\<exists>t. out = Some t \<and> 50 \<le> length t)"
      "effectiveOutputOf name (getProp (Some hookInput) (lit ''tool_input'')) out = Inr eff"
      "\<not> includesStr eff (lit ''<system-reminder>'')"
      "\<not> includesStr eff (lit ''<memvid-mind-context>'')"
      "rTool r = name"
      unfolding out_def by blast
    note c = effectiveOutputOf_cases[OF f(4)]
    have body: "if name \<in> set ALWAYS_CAPTURE_TOOLS \<and> length (orStr out []) < 50
                then \<exists>fileName filePath.
                       eff = lit ''File modified: '' @ fileName @ [0x0A] @ lit ''Path: ''
                             @ filePath @ [0x0A] @ lit ''Tool: '' @ name
                else out = Some eff \<and> 50 \<le> length eff"
    proof (cases "name \<in> set ALWAYS_CAPTURE_TOOLS \<and> length (orStr out []) < 50")
      case True
      with c show ?thesis by simp
    next
      case False
      with c have e: "eff = orStr out []" by simp
      from False f(3) have "50 \<le> length (orStr out [])"
        by (auto simp: orStr_def)
      then have "out = Some eff \<and> 50 \<le> length eff" using e
        by (auto simp: orStr_def split: option.splits if_splits)
      with False show ?thesis by (simp only: if_False)
    qed
    from p f body show ?thesis unfolding out_def by blast
  qed
  from cont st show ?thesis by blast
qed

theorem hook_gating_witness:
  "continue (written (main (parsingPlatform shortEditEvent) storeReady []))
   \<and> (\<exists>r. stored (main (parsingPlatform shortEditEvent) storeReady []) = Some r
          \<and> rTool r = lit ''Edit''
          \<and> rTool r \<in> set OBSERVED_TOOLS
          \<and> rContent r = lit ''File modified: app.ts'' @ [0x0A] @ lit ''Path: /src/app.ts''
                          @ [0x0A] @ lit ''Tool: Edit'')"
proof -
  note th = hook_gating [of "parsingPlatform shortEditEvent" storeReady "[]"]
  from th have c: "continue (written (main (parsingPlatform shortEditEvent) storeReady []))"
    by blast
  from th shortEdit_stored
  have "rTool \<lparr> rType = Refactor, rSummary = lit ''Edited app.ts'',
            rContent = lit ''File modified: app.ts'' @ [0x0A] @ lit ''Path: /src/app.ts''
                       @ [0x0A] @ lit ''Tool: Edit'',
            rTool = lit ''Edit'',
            rMetadata = [(lit ''files'', JArr [JStr (lit ''/src/app.ts'')])] \<rparr>
        \<in> set OBSERVED_TOOLS"
    by metis
  with c shortEdit_stored show ?thesis by simp
qed


end
